theory Spec2Isabelle
  imports Complex_Main
begin

section \<open>JavaScript numbers\<close>

text \<open>
  A JavaScript number is a finite value, one of the two infinities, or NaN. Finite values
  are kept exact (a real number): rounding to a double and the sign of zero are left out.
  The operations below follow the IEEE rules the program meets: a subtraction of equal
  infinities and a division of zero by zero give NaN, a non-zero value divided by zero
  gives an infinity, NaN is contagious, also through \<open>Math.min\<close> and \<open>Math.max\<close>.
\<close>

datatype jsnum = Fin real | PInf | NInf | NaN

fun js_neg :: "jsnum \<Rightarrow> jsnum" where
  "js_neg (Fin x) = Fin (- x)"
| "js_neg PInf = NInf"
| "js_neg NInf = PInf"
| "js_neg NaN = NaN"

fun js_add :: "jsnum \<Rightarrow> jsnum \<Rightarrow> jsnum" where
  "js_add NaN _ = NaN"
| "js_add _ NaN = NaN"
| "js_add (Fin x) (Fin y) = Fin (x + y)"
| "js_add PInf NInf = NaN"
| "js_add NInf PInf = NaN"
| "js_add PInf _ = PInf"
| "js_add NInf _ = NInf"
| "js_add (Fin x) PInf = PInf"
| "js_add (Fin x) NInf = NInf"

definition js_sub :: "jsnum \<Rightarrow> jsnum \<Rightarrow> jsnum" where
  "js_sub a b = js_add a (js_neg b)"

text \<open>The sign of a number other than NaN: \<open>-1\<close>, \<open>0\<close> or \<open>1\<close>.\<close>

fun js_sign :: "jsnum \<Rightarrow> int" where
  "js_sign (Fin x) = (if x < 0 then - 1 else if x = 0 then 0 else 1)"
| "js_sign PInf = 1"
| "js_sign NInf = - 1"
| "js_sign NaN = 0"

definition signed_inf :: "int \<Rightarrow> jsnum" where
  "signed_inf s = (if s < 0 then NInf else PInf)"

fun js_mul :: "jsnum \<Rightarrow> jsnum \<Rightarrow> jsnum" where
  "js_mul NaN _ = NaN"
| "js_mul _ NaN = NaN"
| "js_mul (Fin x) (Fin y) = Fin (x * y)"
| "js_mul a b =
     (if js_sign a = 0 \<or> js_sign b = 0 then NaN else signed_inf (js_sign a * js_sign b))"

fun js_div :: "jsnum \<Rightarrow> jsnum \<Rightarrow> jsnum" where
  "js_div NaN _ = NaN"
| "js_div _ NaN = NaN"
| "js_div (Fin x) (Fin y) =
     (if y \<noteq> 0 then Fin (x / y)
      else if x = 0 then NaN
      else signed_inf (js_sign (Fin x)))"
| "js_div (Fin x) _ = Fin 0"
| "js_div a (Fin y) = signed_inf (js_sign a * (if y < 0 then - 1 else 1))"
| "js_div a b = NaN"

text \<open>The order \<open><\<close> of two numbers, false as soon as one of them is NaN.\<close>

fun js_less :: "jsnum \<Rightarrow> jsnum \<Rightarrow> bool" where
  "js_less NaN _ = False"
| "js_less _ NaN = False"
| "js_less (Fin x) (Fin y) = (x < y)"
| "js_less NInf b = (b \<noteq> NInf)"
| "js_less a PInf = (a \<noteq> PInf)"
| "js_less a b = False"

text \<open>The order \<open><=\<close> of two numbers, false as soon as one of them is NaN.\<close>

definition js_le :: "jsnum \<Rightarrow> jsnum \<Rightarrow> bool" where
  "js_le a b \<longleftrightarrow> a \<noteq> NaN \<and> b \<noteq> NaN \<and> \<not> js_less b a"

text \<open>\<open>Math.min(a, b)\<close> and \<open>Math.max(a, b)\<close>.\<close>

definition Math_min :: "jsnum \<Rightarrow> jsnum \<Rightarrow> jsnum" where
  "Math_min a b = (if a = NaN \<or> b = NaN then NaN else if js_less b a then b else a)"

definition Math_max :: "jsnum \<Rightarrow> jsnum \<Rightarrow> jsnum" where
  "Math_max a b = (if a = NaN \<or> b = NaN then NaN else if js_less a b then b else a)"

text \<open>
  \<open>Math.min(...xs)\<close> and \<open>Math.max(...xs)\<close> over the spread of an array: the scan
  starts from \<open>Infinity\<close> (from \<open>-Infinity\<close>), which is the result on an empty array.
\<close>

definition Math_min_of :: "jsnum list \<Rightarrow> jsnum" where
  "Math_min_of xs = foldl Math_min PInf xs"

definition Math_max_of :: "jsnum list \<Rightarrow> jsnum" where
  "Math_max_of xs = foldl Math_max NInf xs"

section \<open>Printing numbers\<close>

definition digit_char :: "nat \<Rightarrow> char" where
  "digit_char d = char_of (48 + d)"

function nat_string :: "nat \<Rightarrow> string" where
  "nat_string n = (if n < 10 then [digit_char n] else nat_string (n div 10) @ [digit_char (n mod 10)])"
  by pat_completeness auto
termination
  by (relation "measure id") auto

declare nat_string.simps [simp del]

definition int_string :: "int \<Rightarrow> string" where
  "int_string i = (if i < 0 then CHR ''-'' # nat_string (nat (- i)) else nat_string (nat i))"

text \<open>
  The text of \<open>Math.round(x)\<close> inside a template literal: \<open>Math.round\<close> takes the
  integer nearest to \<open>x\<close>, the larger one at a tie.
\<close>

fun round_string :: "jsnum \<Rightarrow> string" where
  "round_string (Fin x) = int_string \<lfloor>x + 1 / 2\<rfloor>"
| "round_string PInf = ''Infinity''"
| "round_string NInf = ''-Infinity''"
| "round_string NaN = ''NaN''"

text \<open>
  \<open>x.toFixed(1)\<close>: the sign, then the nearest multiple of one tenth of the magnitude
  (the larger one at a tie) with one digit behind the point. This is the text for
  magnitudes below \<open>10\<^sup>2\<^sup>1\<close>, beyond which JavaScript prints an exponent.
\<close>

fun toFixed1 :: "jsnum \<Rightarrow> string" where
  "toFixed1 (Fin x) =
     (let n = nat \<lfloor>\<bar>x\<bar> * 10 + 1 / 2\<rfloor>;
          s = nat_string (n div 10) @ ''.'' @ [digit_char (n mod 10)]
      in if x < 0 then CHR ''-'' # s else s)"
| "toFixed1 PInf = ''Infinity''"
| "toFixed1 NInf = ''-Infinity''"
| "toFixed1 NaN = ''NaN''"

section \<open>Colours of the rendering library\<close>

text \<open>
  \<open>THREE.Color\<close> belongs to the rendering library, not to this repository. The
  operations the program calls are modelled as the library defines them with its colour
  management switched on, which is its default: a colour is three channels in the linear
  working space, \<open>1\<close> being full intensity; the constructor reads a style as an sRGB
  colour and converts each channel to the working space; \<open>add\<close> sums channel by
  channel; \<open>lerp(c, alpha)\<close> moves each channel by \<open>alpha\<close> times its distance to
  \<open>c\<close>; \<open>getStyle\<close> converts each channel back to sRGB and prints \<open>rgb(R,G,B)\<close>
  with the channel times 255, rounded.
\<close>

datatype Color = RGB jsnum jsnum jsnum

text \<open>
  The two transfer functions of the library, \<open>SRGBToLinear\<close> and \<open>LinearToSRGB\<close>, on
  finite values; \<open>Math.pow\<close> is the real power.
\<close>

definition srgb_to_linear :: "real \<Rightarrow> real" where
  "srgb_to_linear c =
     (if c < 0.04045 then c * 0.0773993808
      else (c * 0.9478672986 + 0.0521327014) powr 2.4)"

definition linear_to_srgb :: "real \<Rightarrow> real" where
  "linear_to_srgb c =
     (if c < 0.0031308 then c * 12.92 else 1.055 * (c powr 0.41666) - 0.055)"

text \<open>
  \<open>LinearToSRGB\<close> on any number: NaN fails the comparison and stays NaN through the
  power, \<open>-Infinity\<close> takes the linear branch, \<open>Infinity\<close> the power.
\<close>

fun LinearToSRGB :: "jsnum \<Rightarrow> jsnum" where
  "LinearToSRGB (Fin c) = Fin (linear_to_srgb c)"
| "LinearToSRGB PInf = PInf"
| "LinearToSRGB NInf = NInf"
| "LinearToSRGB NaN = NaN"

definition hexDigit :: "char \<Rightarrow> nat option" where
  "hexDigit c =
     (let n = (of_char c :: nat) in
      if 48 \<le> n \<and> n \<le> 57 then Some (n - 48)
      else if 65 \<le> n \<and> n \<le> 70 then Some (n - 55)
      else if 97 \<le> n \<and> n \<le> 102 then Some (n - 87)
      else None)"

definition white :: Color where
  "white = RGB (Fin 1) (Fin 1) (Fin 1)"

definition byte_channel :: "nat \<Rightarrow> nat \<Rightarrow> jsnum" where
  "byte_channel hi lo = Fin (srgb_to_linear (real (16 * hi + lo) / 255))"

definition nibble_channel :: "nat \<Rightarrow> jsnum" where
  "nibble_channel d = Fin (srgb_to_linear (real d / 15))"

text \<open>
  The constructor on a style string. The hexadecimal notations are read here: three or six
  digits after \<open>#\<close> give the colour, another number of digits leaves the new colour white,
  and so does the empty string. Every other string (the functional notations \<open>rgb()\<close>
  and \<open>hsl()\<close>, the colour names, and what the library cannot read) is read by
  \<open>other\<close>, a parameter that gives the three channels of the colour, finite numbers:
  the program passes hexadecimal literals only, and what is proved holds for every such
  reader.
\<close>

type_synonym style_reader = "string \<Rightarrow> real \<times> real \<times> real"

definition new_Color :: "style_reader \<Rightarrow> string \<Rightarrow> Color" where
  "new_Color other style =
     (case style of
        [] \<Rightarrow> white
      | c # hex \<Rightarrow>
          if c = CHR ''#'' \<and> hex \<noteq> [] \<and> those (map hexDigit hex) \<noteq> None
          then (case those (map hexDigit hex) of
                  Some [r, g, b] \<Rightarrow> RGB (nibble_channel r) (nibble_channel g) (nibble_channel b)
                | Some [r1, r2, g1, g2, b1, b2] \<Rightarrow>
                    RGB (byte_channel r1 r2) (byte_channel g1 g2) (byte_channel b1 b2)
                | _ \<Rightarrow> white)
          else (case other style of (r, g, b) \<Rightarrow> RGB (Fin r) (Fin g) (Fin b)))"

text \<open>
  A reader that leaves every string white, as the library does with a string it cannot
  read; it stands for the parameter where only hexadecimal strings are read.
\<close>

definition unread :: style_reader where
  "unread style = (1, 1, 1)"

fun color_add :: "Color \<Rightarrow> Color \<Rightarrow> Color" where
  "color_add (RGB r g b) (RGB r' g' b') = RGB (js_add r r') (js_add g g') (js_add b b')"

fun color_lerp :: "Color \<Rightarrow> Color \<Rightarrow> jsnum \<Rightarrow> Color" where
  "color_lerp (RGB r g b) (RGB r' g' b') alpha =
     RGB (js_add r (js_mul (js_sub r' r) alpha))
         (js_add g (js_mul (js_sub g' g) alpha))
         (js_add b (js_mul (js_sub b' b) alpha))"

fun getStyle :: "Color \<Rightarrow> string" where
  "getStyle (RGB r g b) =
     ''rgb('' @ round_string (js_mul (LinearToSRGB r) (Fin 255)) @ '','' @
     round_string (js_mul (LinearToSRGB g) (Fin 255)) @ '','' @
     round_string (js_mul (LinearToSRGB b) (Fin 255)) @ '')''"

section \<open>interpolateColor\<close>

definition interpolation_t :: "jsnum \<Rightarrow> jsnum \<Rightarrow> jsnum \<Rightarrow> jsnum" where
  "interpolation_t val mn mx =
     Math_max (Fin 0) (Math_min (Fin 1) (js_div (js_sub val mn) (js_sub mx mn)))"

definition interpolateColor ::
  "style_reader \<Rightarrow> jsnum \<Rightarrow> jsnum \<Rightarrow> jsnum \<Rightarrow> string \<Rightarrow> string \<Rightarrow> string" where
  "interpolateColor other val mn mx colorLow colorHigh =
     (let t = interpolation_t val mn mx;
          c1 = new_Color other colorLow;
          c2 = new_Color other colorHigh;
          mixedLow = color_add c1 (new_Color other ''#111122'')
      in getStyle (color_lerp mixedLow c2 t))"

text \<open>
  The same function with its objects in a store. A colour object is a cell of the heap,
  \<open>new\<close> and \<open>clone\<close> allocate a cell, \<open>add\<close> and \<open>lerp\<close> overwrite the
  cell of their receiver and return it. References are the positions of the cells; the
  function only uses references it has allocated itself.
\<close>

type_synonym heap = "Color list"

definition alloc :: "Color \<Rightarrow> heap \<Rightarrow> nat \<times> heap" where
  "alloc c h = (length h, h @ [c])"

definition h_new_Color :: "style_reader \<Rightarrow> string \<Rightarrow> heap \<Rightarrow> nat \<times> heap" where
  "h_new_Color other style h = alloc (new_Color other style) h"

definition h_clone :: "nat \<Rightarrow> heap \<Rightarrow> nat \<times> heap" where
  "h_clone a h = alloc (h ! a) h"

definition h_add :: "nat \<Rightarrow> nat \<Rightarrow> heap \<Rightarrow> heap" where
  "h_add a b h = h[a := color_add (h ! a) (h ! b)]"

definition h_lerp :: "nat \<Rightarrow> nat \<Rightarrow> jsnum \<Rightarrow> heap \<Rightarrow> heap" where
  "h_lerp a b alpha h = h[a := color_lerp (h ! a) (h ! b) alpha]"

definition h_getStyle :: "nat \<Rightarrow> heap \<Rightarrow> string" where
  "h_getStyle a h = getStyle (h ! a)"

definition interpolateColor_heap ::
  "style_reader \<Rightarrow> jsnum \<Rightarrow> jsnum \<Rightarrow> jsnum \<Rightarrow> string \<Rightarrow> string \<Rightarrow> heap \<Rightarrow> string \<times> heap" where
  "interpolateColor_heap other val mn mx colorLow colorHigh h =
     (let t = interpolation_t val mn mx;
          (c1, h1) = h_new_Color other colorLow h;
          (c2, h2) = h_new_Color other colorHigh h1;
          (cl, h3) = h_clone c1 h2;
          (tmp, h4) = h_new_Color other ''#111122'' h3;
          h5 = h_add cl tmp h4;
          mixedLow = cl;
          h6 = h_lerp mixedLow c2 t h5
      in (h_getStyle mixedLow h6, h6))"

section \<open>Element records and colour modes\<close>

record ElementData =
  name :: string
  symbol :: string
  number :: nat
  xpos :: int
  ypos :: int
  category :: string
  cpk_hex :: "string option"
  atomic_mass :: real
  phase :: string
  block :: string
  summary :: string
  melt :: "real option"
  boil :: "real option"
  density :: "real option"
  electronegativity_pauling :: "real option"
  ionization_energies :: "real list"
  electron_affinity :: "real option"

datatype ColorMode =
  Category | Phase | Block | Cpk | Atomic_mass | Density | Electronegativity | Ionization
  | Electron_affinity

text \<open>The string that a colour mode is in the source.\<close>

fun mode_key :: "ColorMode \<Rightarrow> string" where
  "mode_key Category = ''category''"
| "mode_key Phase = ''phase''"
| "mode_key Block = ''block''"
| "mode_key Cpk = ''cpk''"
| "mode_key Atomic_mass = ''atomic_mass''"
| "mode_key Density = ''density''"
| "mode_key Electronegativity = ''electronegativity''"
| "mode_key Ionization = ''ionization''"
| "mode_key Electron_affinity = ''electron_affinity''"

definition categoryColors :: "(string \<times> string) list" where
  "categoryColors =
     [(''diatomic nonmetal'', ''#00f2ff''),
      (''noble gas'', ''#bf00ff''),
      (''alkali metal'', ''#ff0055''),
      (''alkaline earth metal'', ''#ffaa00''),
      (''metalloid'', ''#00ff88''),
      (''polyatomic nonmetal'', ''#00ccff''),
      (''post-transition metal'', ''#5de2ff''),
      (''transition metal'', ''#ffea00''),
      (''lanthanide'', ''#ff00ff''),
      (''actinide'', ''#ff5500'')]"

definition phaseColors :: "(string \<times> string) list" where
  "phaseColors =
     [(''Gas'', ''#ff00ff''),
      (''Solid'', ''#00f2ff''),
      (''Liquid'', ''#00ff88''),
      (''Unknown'', ''#444444'')]"

definition blockColors :: "(string \<times> string) list" where
  "blockColors =
     [(''s'', ''#ff0055''),
      (''p'', ''#00f2ff''),
      (''d'', ''#ffea00''),
      (''f'', ''#bf00ff'')]"

text \<open>
  A table is an object literal, so \<open>table[key]\<close> answers the keys written in the
  literal and also the names it inherits from \<open>Object.prototype\<close>; the inherited
  members are functions, and the prototype itself under \<open>__proto__\<close>.
\<close>

definition Object_prototype_names :: "string list" where
  "Object_prototype_names =
     [''constructor'', ''__defineGetter__'', ''__defineSetter__'', ''hasOwnProperty'',
      ''__lookupGetter__'', ''__lookupSetter__'', ''isPrototypeOf'',
      ''propertyIsEnumerable'', ''toString'', ''valueOf'', ''__proto__'',
      ''toLocaleString'']"

text \<open>
  What the colour memo returns: a string, or the member of \<open>Object.prototype\<close> of the
  given name.
\<close>

datatype color_value = Str string | Inherited string

text \<open>
  \<open>table[key] || fallback\<close>: the entry of the key when it is a non-empty string, the
  inherited member (an object, which \<open>||\<close> keeps) when the key is an inherited name, the
  fallback otherwise.
\<close>

definition lookup_or :: "(string \<times> string) list \<Rightarrow> string \<Rightarrow> string \<Rightarrow> color_value" where
  "lookup_or table key fallback =
     (case map_of table key of
        Some s \<Rightarrow> if s = [] then Str fallback else Str s
      | None \<Rightarrow> if key \<in> set Object_prototype_names then Inherited key else Str fallback)"

text \<open>\<open>x || 0\<close> on a number or null, and \<open>xs[0] || 0\<close> on an array of numbers.\<close>

definition or_zero :: "real option \<Rightarrow> jsnum" where
  "or_zero x = (case x of None \<Rightarrow> Fin 0 | Some v \<Rightarrow> if v = 0 then Fin 0 else Fin v)"

definition first_or_zero :: "real list \<Rightarrow> jsnum" where
  "first_or_zero xs = (case xs of [] \<Rightarrow> Fin 0 | v # _ \<Rightarrow> if v = 0 then Fin 0 else Fin v)"

datatype js_error = TypeError

type_synonym range_table = "string \<rightharpoonup> jsnum \<times> jsnum"

text \<open>
  \<open>interpolateColor(v, ranges.key[0], ranges.key[1], low, high)\<close>: reading an index of
  an entry that the table does not have throws.
\<close>

definition interpolate_in ::
  "style_reader \<Rightarrow> range_table \<Rightarrow> string \<Rightarrow> jsnum \<Rightarrow> string \<Rightarrow> string \<Rightarrow> js_error + color_value" where
  "interpolate_in other rs key v low high =
     (case rs key of
        None \<Rightarrow> Inl TypeError
      | Some (mn, mx) \<Rightarrow> Inr (Str (interpolateColor other v mn mx low high)))"

text \<open>
  The colour of an element block (the \<open>color\<close> memo of \<open>ElementBlock\<close>). The
  \<open>default\<close> branch of the switch is not reached by a value of the type \<open>ColorMode\<close>.
\<close>

fun ElementBlock_color ::
  "style_reader \<Rightarrow> ColorMode \<Rightarrow> ElementData \<Rightarrow> range_table \<Rightarrow> js_error + color_value" where
  "ElementBlock_color other Category element rs =
     Inr (lookup_or categoryColors (category element) ''#444444'')"
| "ElementBlock_color other Phase element rs =
     Inr (lookup_or phaseColors (phase element) ''#444444'')"
| "ElementBlock_color other Block element rs =
     Inr (lookup_or blockColors (block element) ''#444444'')"
| "ElementBlock_color other Cpk element rs =
     Inr (case cpk_hex element of
            None \<Rightarrow> Str ''#444444''
          | Some h \<Rightarrow> if h = [] then Str ''#444444'' else Str (CHR ''#'' # h))"
| "ElementBlock_color other Atomic_mass element rs =
     interpolate_in other rs ''atomic_mass'' (Fin (atomic_mass element)) ''#222244'' ''#e94560''"
| "ElementBlock_color other Density element rs =
     interpolate_in other rs ''density'' (or_zero (density element)) ''#222244'' ''#00d2ff''"
| "ElementBlock_color other Electronegativity element rs =
     interpolate_in other rs ''electronegativity'' (or_zero (electronegativity_pauling element))
       ''#222244'' ''#f9d423''"
| "ElementBlock_color other Ionization element rs =
     interpolate_in other rs ''ionization'' (first_or_zero (ionization_energies element))
       ''#222244'' ''#a8ff78''"
| "ElementBlock_color other Electron_affinity element rs =
     interpolate_in other rs ''electron_affinity'' (or_zero (electron_affinity element))
       ''#222244'' ''#ff0080''"

section \<open>Property ranges and the legend\<close>

text \<open>
  The scan of one property: the values of the records that pass the filter, then
  \<open>Math.min\<close> and \<open>Math.max\<close> over them.
\<close>

definition scan_range ::
  "(ElementData \<Rightarrow> bool) \<Rightarrow> (ElementData \<Rightarrow> real) \<Rightarrow> ElementData list \<Rightarrow> jsnum \<times> jsnum" where
  "scan_range keep val elements =
     (Math_min_of (map (\<lambda>e. Fin (val e)) (filter keep elements)),
      Math_max_of (map (\<lambda>e. Fin (val e)) (filter keep elements)))"

definition ranges :: "ElementData list \<Rightarrow> range_table" where
  "ranges elements =
     (if length elements = 0 then Map.empty
      else [''atomic_mass'' \<mapsto> scan_range (\<lambda>e. True) atomic_mass elements,
            ''density'' \<mapsto>
               scan_range (\<lambda>e. density e \<noteq> None) (\<lambda>e. the (density e)) elements,
            ''electronegativity'' \<mapsto>
               scan_range (\<lambda>e. electronegativity_pauling e \<noteq> None)
                 (\<lambda>e. the (electronegativity_pauling e)) elements,
            ''ionization'' \<mapsto>
               scan_range (\<lambda>e. length (ionization_energies e) > 0)
                 (\<lambda>e. hd (ionization_energies e)) elements,
            ''electron_affinity'' \<mapsto>
               scan_range (\<lambda>e. electron_affinity e \<noteq> None)
                 (\<lambda>e. the (electron_affinity e)) elements])"

text \<open>The label and the two gradient colours of each interpolating mode.\<close>

definition propertyConfigs :: "(string \<times> string \<times> string \<times> string) list" where
  "propertyConfigs =
     [(''atomic_mass'', ''Atomic Mass'', ''#1a1a2e'', ''#e94560''),
      (''density'', ''Density'', ''#1a1a2e'', ''#00d2ff''),
      (''electronegativity'', ''Electronegativity'', ''#1a1a2e'', ''#f9d423''),
      (''ionization'', ''Ionization Enthalpy'', ''#1a1a2e'', ''#a8ff78''),
      (''electron_affinity'', ''Electron Affinity'', ''#1a1a2e'', ''#ff0080'')]"

text \<open>
  The legend: absent in a mode without configuration; else the label, the gradient and
  the two texts \<open>ranges[colorMode]?.[0]?.toFixed(1)\<close> and
  \<open>ranges[colorMode]?.[1]?.toFixed(1)\<close>, each empty when the table has no entry.
\<close>

record legend_view =
  legend_label :: string
  legend_gradient :: "string \<times> string"
  legend_min :: "string option"
  legend_max :: "string option"

definition legend :: "ColorMode \<Rightarrow> range_table \<Rightarrow> legend_view option" where
  "legend mode rs =
     (case map_of propertyConfigs (mode_key mode) of
        None \<Rightarrow> None
      | Some (label, low, high) \<Rightarrow>
          Some \<lparr>legend_label = label,
                legend_gradient = (low, high),
                legend_min = map_option (\<lambda>r. toFixed1 (fst r)) (rs (mode_key mode)),
                legend_max = map_option (\<lambda>r. toFixed1 (snd r)) (rs (mode_key mode))\<rparr>)"

section \<open>The state of the scene and its event handlers\<close>

text \<open>
  The state variables of \<open>PeriodicTableScene\<close>. The fetched objects are stored as they
  are (TypeScript reads them as \<open>ElementData\<close> without converting anything), so the
  state is generic in the representation \<open>'e\<close> of an element.
\<close>

record 'e scene_state =
  elements :: "'e list"
  hoveredElementId :: "nat option"
  selectedElementId :: "nat option"
  colorMode :: ColorMode
  loading :: bool
  error :: "string option"
  isMobile :: bool
  showDropdown :: bool

definition initial_state :: "'e scene_state" where
  "initial_state =
     \<lparr>elements = [], hoveredElementId = None, selectedElementId = None,
      colorMode = Category, loading = True, error = None, isMobile = False,
      showDropdown = False\<rparr>"

text \<open>\<open>isSelected\<close> and \<open>isHovered\<close> of the block of the element with number \<open>n\<close>.\<close>

definition isSelected :: "'e scene_state \<Rightarrow> nat \<Rightarrow> bool" where
  "isSelected st n = (selectedElementId st = Some n)"

definition isHovered :: "'e scene_state \<Rightarrow> nat \<Rightarrow> bool" where
  "isHovered st n = (hoveredElementId st = Some n)"

text \<open>\<open>!id\<close> on a number or null: true for null and for the number zero.\<close>

definition js_not :: "nat option \<Rightarrow> bool" where
  "js_not i = (case i of None \<Rightarrow> True | Some n \<Rightarrow> n = 0)"

text \<open>
  The handlers of the block of the element with number \<open>n\<close>; \<open>hasMouse\<close> is the
  block's own flag (whether the device has a fine pointer).
\<close>

definition onClick :: "nat \<Rightarrow> 'e scene_state \<Rightarrow> 'e scene_state" where
  "onClick n st =
     (let newId = (if isSelected st n then None else Some n)
      in st\<lparr>selectedElementId := newId, hoveredElementId := None\<rparr>)"

definition onPointerOver :: "bool \<Rightarrow> nat \<Rightarrow> 'e scene_state \<Rightarrow> 'e scene_state" where
  "onPointerOver hasMouse n st =
     (if hasMouse \<and> js_not (selectedElementId st) then st\<lparr>hoveredElementId := Some n\<rparr>
      else st)"

definition onPointerOut :: "bool \<Rightarrow> 'e scene_state \<Rightarrow> 'e scene_state" where
  "onPointerOut hasMouse st = (if hasMouse then st\<lparr>hoveredElementId := None\<rparr> else st)"

text \<open>The handlers of the scene: a click on empty space, and the reset button.\<close>

definition onPointerMissed :: "'e scene_state \<Rightarrow> 'e scene_state" where
  "onPointerMissed st = st\<lparr>selectedElementId := None, hoveredElementId := None\<rparr>"

definition resetScene :: "'e scene_state \<Rightarrow> 'e scene_state" where
  "resetScene st =
     st\<lparr>selectedElementId := None, hoveredElementId := None, colorMode := Category\<rparr>"

datatype event =
  Click nat | PointerOver bool nat | PointerOut bool | PointerMissed | Reset

fun handle :: "'e scene_state \<Rightarrow> event \<Rightarrow> 'e scene_state" where
  "handle st (Click n) = onClick n st"
| "handle st (PointerOver hasMouse n) = onPointerOver hasMouse n st"
| "handle st (PointerOut hasMouse) = onPointerOut hasMouse st"
| "handle st PointerMissed = onPointerMissed st"
| "handle st Reset = resetScene st"

text \<open>The state after a sequence of events, each handled in the state the last one left.\<close>

definition run :: "event list \<Rightarrow> 'e scene_state \<Rightarrow> 'e scene_state" where
  "run evs st = foldl handle st evs"

text \<open>
  An event on a block names the number of an element of the table: an atomic number, from
  1 to 118.
\<close>

fun on_element :: "event \<Rightarrow> bool" where
  "on_element (Click n) = (1 \<le> n \<and> n \<le> 118)"
| "on_element (PointerOver hasMouse n) = (1 \<le> n \<and> n \<le> 118)"
| "on_element _ = True"

section \<open>Loading the elements\<close>

text \<open>A value of the fetched document, and an object as the map from its field names.\<close>

datatype jsval =
  JUndefined | JNull | JBool bool | JNum real | JStr string | JArr "jsval list"
  | JObj "(string \<times> jsval) list"

type_synonym jsobj = "string \<rightharpoonup> jsval"

text \<open>\<open>el[key]\<close>: \<open>undefined\<close> for a field the object does not have.\<close>

definition get_field :: "jsobj \<Rightarrow> string \<Rightarrow> jsval" where
  "get_field el key = (case el key of None \<Rightarrow> JUndefined | Some v \<Rightarrow> v)"

text \<open>The object \<open>{ ...el, cpk_hex: el['cpk-hex'] }\<close>.\<close>

definition mappedElement :: "jsobj \<Rightarrow> jsobj" where
  "mappedElement el = el(''cpk_hex'' \<mapsto> get_field el ''cpk-hex'')"

definition mappedElements :: "jsobj list \<Rightarrow> jsobj list" where
  "mappedElements els = map mappedElement els"

text \<open>
  How the request ends: the promise is rejected with an error, or a response arrives with
  its \<open>ok\<close> flag, its status and its body. A body is the array under \<open>elements\<close> of
  the parsed document, or it is not of that shape, and reading it throws an error; an error
  is its message.
\<close>

datatype fetch_body = Malformed string | Elements "jsobj list"

datatype fetch_outcome = Rejected string | Response bool nat fetch_body

text \<open>
  The continuation of the request. It gives the next state and the requests it starts in
  turn; neither branch starts one.
\<close>

definition fail_with :: "string \<Rightarrow> jsobj scene_state \<Rightarrow> jsobj scene_state \<times> string list" where
  "fail_with msg st = (st\<lparr>error := Some msg, loading := False\<rparr>, [])"

fun fetch_settled :: "fetch_outcome \<Rightarrow> jsobj scene_state \<Rightarrow> jsobj scene_state \<times> string list" where
  "fetch_settled (Rejected msg) st = fail_with msg st"
| "fetch_settled (Response ok status body) st =
     (if \<not> ok then fail_with (''HTTP error! status: '' @ nat_string status) st
      else case body of
             Malformed msg \<Rightarrow> fail_with msg st
           | Elements els \<Rightarrow> (st\<lparr>elements := mappedElements els, loading := False\<rparr>, []))"

text \<open>The effect run once when the component is mounted: it starts the one request.\<close>

definition mount_effect :: "jsobj scene_state \<Rightarrow> jsobj scene_state \<times> string list" where
  "mount_effect st = (st, [''/PeriodicTableJSON.json''])"

text \<open>
  What the component renders: the loading screen while \<open>loading\<close> is set, else the
  scene, which is built from the elements, the hovered and the selected number, the colour
  mode, the viewport class and the dropdown flag. These are all the state variables that
  the markup reads.
\<close>

datatype 'e view =
  LoadingScreen
  | Scene "'e list" "nat option" "nat option" ColorMode bool bool

definition render :: "'e scene_state \<Rightarrow> 'e view" where
  "render st =
     (if loading st then LoadingScreen
      else Scene (elements st) (hoveredElementId st) (selectedElementId st) (colorMode st)
             (isMobile st) (showDropdown st))"

section \<open>Notions of the specification\<close>

text \<open>
  The values of a property over the records that have one, and the pair of their minimum
  and maximum; over no value at all the pair is the one the scan starts from.
\<close>

definition present_values :: "(ElementData \<Rightarrow> real option) \<Rightarrow> ElementData list \<Rightarrow> real set" where
  "present_values f els = Option.these (f ` set els)"

definition first_ionization :: "ElementData \<Rightarrow> real option" where
  "first_ionization e = (case ionization_energies e of [] \<Rightarrow> None | v # _ \<Rightarrow> Some v)"

definition min_max :: "real set \<Rightarrow> jsnum \<times> jsnum" where
  "min_max S = (if S = {} then (PInf, NInf) else (Fin (Min S), Fin (Max S)))"

text \<open>A colour whose three channels are finite numbers.\<close>

fun finite_color :: "Color \<Rightarrow> bool" where
  "finite_color (RGB (Fin r) (Fin g) (Fin b)) = True"
| "finite_color _ = False"

section \<open>Sample records\<close>

text \<open>Three records on which the definitions are evaluated.\<close>

definition sample_hydrogen :: ElementData where
  "sample_hydrogen =
     \<lparr>name = ''Hydrogen'', symbol = ''H'', number = 1, xpos = 1, ypos = 1,
      category = ''diatomic nonmetal'', cpk_hex = Some ''ffffff'', atomic_mass = 1.008,
      phase = ''Gas'', block = ''s'', summary = ''Hydrogen is a chemical element.'',
      melt = Some 13.99, boil = Some 20.271, density = Some 0.08988,
      electronegativity_pauling = Some 2.2, ionization_energies = [1312],
      electron_affinity = Some 72.769\<rparr>"

definition sample_helium :: ElementData where
  "sample_helium =
     \<lparr>name = ''Helium'', symbol = ''He'', number = 2, xpos = 18, ypos = 1,
      category = ''noble gas'', cpk_hex = Some ''d9ffff'', atomic_mass = 4.0026,
      phase = ''Gas'', block = ''s'', summary = ''Helium is a chemical element.'',
      melt = Some 0.95, boil = Some 4.222, density = Some 0.1786,
      electronegativity_pauling = None, ionization_energies = [2372.3, 5250.5],
      electron_affinity = Some (- 48)\<rparr>"

definition sample_unmeasured :: ElementData where
  "sample_unmeasured =
     \<lparr>name = ''Unmeasured'', symbol = ''Um'', number = 118, xpos = 18, ypos = 7,
      category = ''unknown, predicted to be noble gas'', cpk_hex = None, atomic_mass = 294,
      phase = ''Plasma'', block = ''g'', summary = ''A record without measured values.'',
      melt = None, boil = None, density = None,
      electronegativity_pauling = None, ionization_energies = [],
      electron_affinity = None\<rparr>"

definition sample_table :: "ElementData list" where
  "sample_table = [sample_hydrogen, sample_helium, sample_unmeasured]"

text \<open>A record with the value 2 for each of the four properties that may be missing.\<close>

definition sample_two :: ElementData where
  "sample_two =
     sample_unmeasured\<lparr>density := Some 2, electronegativity_pauling := Some 2,
       ionization_energies := [2], electron_affinity := Some 2\<rparr>"

text \<open>
  The invariant of the two identifiers: the selected number is never zero, and no element
  is hovered while one is selected.
\<close>

definition locked :: "'e scene_state \<Rightarrow> bool" where
  "locked st \<longleftrightarrow>
     selectedElementId st \<noteq> Some 0
     \<and> (selectedElementId st \<noteq> None \<longrightarrow> hoveredElementId st = None)"

text \<open>A table of ranges and a fetched object on which the definitions are evaluated.\<close>

definition sample_ranges :: range_table where
  "sample_ranges =
     [''density'' \<mapsto> (Fin 2, Fin 5), ''electronegativity'' \<mapsto> (Fin 2, Fin 5),
      ''ionization'' \<mapsto> (Fin 2, Fin 5), ''electron_affinity'' \<mapsto> (Fin 2, Fin 5)]"

definition sample_object :: jsobj where
  "sample_object =
     [''name'' \<mapsto> JStr ''Hydrogen'', ''number'' \<mapsto> JNum 1, ''cpk-hex'' \<mapsto> JStr ''ffffff'',
      ''density'' \<mapsto> JNum 0.08988]"

text \<open>A pointer moving over element 3, a click on it, then the pointer over element 5.\<close>

definition sample_events :: "event list" where
  "sample_events = [PointerOver True 3, Click 3, PointerOver True 5]"

text \<open>A record whose category is a name that every object inherits.\<close>

definition sample_inherited :: ElementData where
  "sample_inherited = sample_unmeasured\<lparr>category := ''constructor''\<rparr>"

section \<open>Real powers: auxiliary facts\<close>

lemma powr_num_power:
  fixes x :: real
  assumes "0 < x"
  shows "(x powr (real p / real q)) ^ q = x ^ p \<or> q = 0"
proof (cases "q = 0")
  case False
  have "(x powr (real p / real q)) ^ q = (x powr (real p / real q)) powr real q"
    using assms by (simp add: powr_realpow)
  also have "\<dots> = x powr (real p / real q * real q)"
    by (simp add: powr_powr)
  also have "\<dots> = x powr real p"
    using False by simp
  also have "\<dots> = x ^ p"
    using assms by (simp add: powr_realpow)
  finally show ?thesis by simp
qed simp

lemma powr_24_bounds:
  fixes x :: real
  assumes "0 < x" and "0 \<le> lo" and "lo ^ 5 \<le> x ^ 12" and "x ^ 12 \<le> hi ^ 5" and "0 \<le> hi"
  shows "lo \<le> x powr 2.4 \<and> x powr 2.4 \<le> hi"
proof -
  have e: "(2.4 :: real) = real 12 / real 5" by simp
  have p: "(x powr 2.4) ^ 5 = x ^ 12"
    using powr_num_power [OF assms(1), of 12 5] unfolding e by simp
  have nn: "0 \<le> x powr 2.4" by simp
  have "lo \<le> x powr 2.4"
    using assms(3) nn unfolding p [symmetric] by (rule power_le_imp_le_base [where n = 4, simplified])
  moreover have "x powr 2.4 \<le> hi"
    using assms(4,5) unfolding p [symmetric] by (rule power_le_imp_le_base [where n = 4, simplified])
  ultimately show ?thesis by simp
qed

lemma powr_512_bounds:
  fixes c :: real
  assumes "0 < c" and "0 \<le> a" and "a ^ 12 \<le> c ^ 5" and "c ^ 5 \<le> b ^ 12" and "0 \<le> b"
  shows "a \<le> c powr (5 / 12) \<and> c powr (5 / 12) \<le> b"
proof -
  have e: "(5 / 12 :: real) = real 5 / real 12" by simp
  have p: "(c powr (5 / 12)) ^ 12 = c ^ 5"
    using powr_num_power [OF assms(1), of 5 12] unfolding e by simp
  have nn: "0 \<le> c powr (5 / 12)" by simp
  have "a \<le> c powr (5 / 12)"
    using assms(3) nn unfolding p [symmetric] by (rule power_le_imp_le_base [where n = 11, simplified])
  moreover have "c powr (5 / 12) \<le> b"
    using assms(4,5) unfolding p [symmetric] by (rule power_le_imp_le_base [where n = 11, simplified])
  ultimately show ?thesis by simp
qed

text \<open>A power with a small negative exponent is close to one.\<close>

lemma powr_small_negative:
  fixes c r :: real
  assumes "0 < m" and "m \<le> c" and "0 \<le> r" and "r * (1 / m - 1) \<le> y"
    and "0 \<le> y" and "y \<le> 1"
  shows "c powr (- r) \<le> 1 + y + y\<^sup>2"
proof -
  have c: "0 < c" using assms(1,2) by simp
  have "ln (1 / c) \<le> 1 / c - 1"
    using c by (intro ln_le_minus_one) simp
  moreover have "1 / c \<le> 1 / m"
    using assms(1,2) by (simp add: frac_le)
  ultimately have "ln (1 / c) \<le> 1 / m - 1" by simp
  then have "r * ln (1 / c) \<le> r * (1 / m - 1)"
    using assms(3) by (rule mult_left_mono)
  then have le: "r * ln (1 / c) \<le> y"
    using assms(4) by simp
  have "c powr (- r) = exp (r * ln (1 / c))"
    using c by (simp add: powr_def ln_div)
  also have "\<dots> \<le> exp y"
    using le by simp
  also have "exp y \<le> 1 + y + y\<^sup>2"
    using assms(5,6) by (rule exp_bound)
  finally show ?thesis .
qed

lemma powr_041666_lower:
  fixes c :: real
  assumes "0 < cl" and "cl \<le> c" and "c \<le> 1" and "0 \<le> a" and "a ^ 12 \<le> cl ^ 5"
  shows "a \<le> c powr 0.41666"
proof -
  have "a ^ 12 \<le> c ^ 5"
    using assms(1,2,5) by (meson less_eq_real_def order_trans power_mono)
  moreover have "c ^ 5 \<le> 1 ^ 12"
    using assms(1,2,3) by (simp add: power_le_one)
  ultimately have "a \<le> c powr (5 / 12)"
    using powr_512_bounds [of c a 1] assms(1,2,4) by simp
  also have "c powr (5 / 12) \<le> c powr 0.41666"
    using assms(1,2,3) by (intro powr_mono') simp_all
  finally show ?thesis .
qed

lemma powr_041666_upper:
  fixes c :: real
  assumes "0.02 \<le> c" and "c \<le> ch" and "ch \<le> 1" and "0 \<le> b" and "ch ^ 5 \<le> b ^ 12"
  shows "c powr 0.41666 \<le> b * 1.0004"
proof -
  have c: "0 < c" using assms(1) by simp
  have "c ^ 5 \<le> b ^ 12"
    using assms(2,5) c by (meson less_eq_real_def order_trans power_mono)
  then have u: "c powr (5 / 12) \<le> b"
    using powr_512_bounds [of c 0 b] c assms(4) by simp
  have "c powr (- (1 / 150000)) \<le> 1 + (49 / 150000) + (49 / 150000)\<^sup>2"
    using assms(1) by (intro powr_small_negative [where m = "0.02"]) simp_all
  also have "\<dots> \<le> (1.0004 :: real)"
    by (simp add: power2_eq_square)
  finally have k: "c powr (- (1 / 150000)) \<le> 1.0004" .
  have "(0.41666 :: real) = 5 / 12 + - (1 / 150000)" by simp
  then have "c powr 0.41666 = c powr (5 / 12) * c powr (- (1 / 150000))"
    by (simp only: powr_add)
  also have "\<dots> \<le> b * 1.0004"
    using u k assms(4) by (intro mult_mono) simp_all
  finally show ?thesis .
qed

lemma linear_to_srgb_bounds:
  assumes "0.02 \<le> cl" and "cl \<le> c" and "c \<le> ch" and "ch \<le> 1"
    and "0 \<le> a" and "a ^ 12 \<le> cl ^ 5" and "0 \<le> b" and "ch ^ 5 \<le> b ^ 12"
  shows "1.055 * a - 0.055 \<le> linear_to_srgb c \<and> linear_to_srgb c \<le> 1.055 * (b * 1.0004) - 0.055"
proof -
  have "a \<le> c powr 0.41666"
    using assms by (intro powr_041666_lower [where cl = cl]) simp_all
  moreover have "c powr 0.41666 \<le> b * 1.0004"
    using assms by (intro powr_041666_upper [where ch = ch]) simp_all
  moreover have "linear_to_srgb c = 1.055 * (c powr 0.41666) - 0.055"
    using assms(1,2) by (simp add: linear_to_srgb_def)
  ultimately show ?thesis by simp
qed

lemma round_between:
  fixes s :: real
  assumes "lo \<le> s" and "s \<le> hi" and "of_int n - 1 / 2 \<le> lo * 255" and "hi * 255 < of_int n + 1 / 2"
  shows "\<lfloor>s * 255 + 1 / 2\<rfloor> = n"
proof -
  have "of_int n \<le> s * 255 + 1 / 2" using assms(1,3) by simp
  moreover have "s * 255 + 1 / 2 < of_int n + 1" using assms(2,4) by simp
  ultimately show ?thesis by (simp add: floor_unique)
qed

section \<open>The transfer functions: auxiliary facts\<close>

lemma srgb_to_linear_power:
  "0.04045 \<le> c \<Longrightarrow> srgb_to_linear c = (c * 0.9478672986 + 0.0521327014) powr 2.4"
  by (simp add: srgb_to_linear_def)

lemma roundtrip_small:
  assumes "n \<le> 10"
  shows "\<lfloor>linear_to_srgb (srgb_to_linear (real n / 255)) * 255 + 1 / 2\<rfloor> = int n"
proof -
  have r: "real n \<le> 10" "0 \<le> real n" using assms by simp_all
  have l: "srgb_to_linear (real n / 255) = real n / 255 * 0.0773993808"
    using r by (simp add: srgb_to_linear_def)
  have "real n / 255 * 0.0773993808 < 0.0031308"
    using r by simp
  then have s: "linear_to_srgb (srgb_to_linear (real n / 255)) = real n / 255 * 0.0773993808 * 12.92"
    unfolding l by (simp add: linear_to_srgb_def)
  have "real_of_int (int n) \<le> real n / 255 * 0.0773993808 * 12.92 * 255 + 1 / 2"
    using r by simp
  moreover have "real n / 255 * 0.0773993808 * 12.92 * 255 + 1 / 2 < real_of_int (int n) + 1"
    using r by simp
  ultimately show ?thesis
    unfolding s by (rule floor_unique)
qed

lemma powr_near_one:
  fixes u :: real
  assumes "0.093 \<le> u" and "u \<le> 1"
  shows "u \<le> u powr 0.999984 \<and> u powr 0.999984 \<le> u + 0.0002"
proof -
  have u: "0 < u" using assms(1) by simp
  have "u powr 1 \<le> u powr 0.999984"
    using u assms(2) by (intro powr_mono') simp_all
  then have lo: "u \<le> u powr 0.999984"
    using u by simp
  have "u powr (- 0.000016) \<le> 1 + 0.00016 + (0.00016 :: real)\<^sup>2"
    using assms(1) by (intro powr_small_negative [where m = "0.093"]) simp_all
  also have "\<dots> \<le> (1.0002 :: real)"
    by (simp add: power2_eq_square)
  finally have k: "u powr (- 0.000016) \<le> 1.0002" .
  have "(0.999984 :: real) = 1 + - 0.000016" by simp
  then have "u powr 0.999984 = u powr 1 * u powr (- 0.000016)"
    by (simp only: powr_add)
  also have "\<dots> = u * u powr (- 0.000016)"
    using u by simp
  also have "\<dots> \<le> u * 1.0002"
    using k u by (intro mult_left_mono) simp_all
  also have "\<dots> \<le> u + 0.0002"
    using assms(2) by simp
  finally show ?thesis using lo by simp
qed

lemma roundtrip_arith:
  fixes x :: real
  assumes "0 \<le> x" and "x \<le> 255"
  shows "x \<le> (1.055 * (x / 255 * 0.9478672986 + 0.0521327014) - 0.055) * 255 + 1 / 2"
    and "(1.055 * ((x / 255 * 0.9478672986 + 0.0521327014) + 0.0002) - 0.055) * 255 + 1 / 2 < x + 1"
  using assms by (simp_all add: algebra_simps)

lemma roundtrip_large:
  assumes "11 \<le> n" and "n \<le> 255"
  shows "\<lfloor>linear_to_srgb (srgb_to_linear (real n / 255)) * 255 + 1 / 2\<rfloor> = int n"
proof -
  define u where "u = real n / 255 * 0.9478672986 + 0.0521327014"
  have r: "11 \<le> real n" "real n \<le> 255" using assms by simp_all
  have ub: "0.093 \<le> u" "u \<le> 1"
    using r by (simp_all add: u_def)
  have l: "srgb_to_linear (real n / 255) = u powr 2.4"
    using r by (simp add: srgb_to_linear_power u_def)
  have "(0.0031308 :: real) ^ 5 \<le> 0.093 ^ 12" "(0.093 :: real) ^ 12 \<le> 1 ^ 5"
    by (simp_all add: power_divide divide_simps)
  then have "(0.0031308 :: real) \<le> 0.093 powr 2.4"
    by (intro conjunct1 [OF powr_24_bounds [where hi = 1]]) simp_all
  also have "\<dots> \<le> u powr 2.4"
    using ub by (intro powr_mono2) simp_all
  finally have big: "0.0031308 \<le> u powr 2.4" .
  have "(u powr 2.4) powr 0.41666 = u powr (2.4 * 0.41666)"
    by (rule powr_powr)
  also have "(2.4 * 0.41666 :: real) = 0.999984" by simp
  finally have pp: "(u powr 2.4) powr 0.41666 = u powr 0.999984" .
  have "linear_to_srgb (u powr 2.4) = 1.055 * ((u powr 2.4) powr 0.41666) - 0.055"
    using big by (simp add: linear_to_srgb_def)
  then have s: "linear_to_srgb (srgb_to_linear (real n / 255)) = 1.055 * u powr 0.999984 - 0.055"
    by (simp only: l pp)
  note p = powr_near_one [OF ub]
  have r0: "0 \<le> real n" by simp
  have "real_of_int (int n) \<le> (1.055 * u - 0.055) * 255 + 1 / 2"
    unfolding u_def using roundtrip_arith(1) [OF r0 r(2)] by simp
  also have "\<dots> \<le> (1.055 * u powr 0.999984 - 0.055) * 255 + 1 / 2"
    using p by simp
  finally have lo: "real_of_int (int n) \<le> (1.055 * u powr 0.999984 - 0.055) * 255 + 1 / 2" .
  have "(1.055 * u powr 0.999984 - 0.055) * 255 + 1 / 2 \<le> (1.055 * (u + 0.0002) - 0.055) * 255 + 1 / 2"
    using p by simp
  also have "\<dots> < real_of_int (int n) + 1"
    unfolding u_def using roundtrip_arith(2) [OF r0 r(2)] by simp
  finally have hi: "(1.055 * u powr 0.999984 - 0.055) * 255 + 1 / 2 < real_of_int (int n) + 1" .
  show ?thesis
    unfolding s using lo hi by (rule floor_unique)
qed

lemma roundtrip_byte:
  "n \<le> 255 \<Longrightarrow> \<lfloor>linear_to_srgb (srgb_to_linear (real n / 255)) * 255 + 1 / 2\<rfloor> = int n"
  using roundtrip_small [of n] roundtrip_large [of n] by (cases "n \<le> 10") simp_all

lemma int_string_nat: "int_string (int m) = nat_string m"
  by (simp add: int_string_def)

lemma byte_channel_style:
  "16 * hi + lo \<le> 255 \<Longrightarrow>
   round_string (js_mul (LinearToSRGB (byte_channel hi lo)) (Fin 255)) = nat_string (16 * hi + lo)"
proof -
  assume "16 * hi + lo \<le> 255"
  then have "\<lfloor>linear_to_srgb (srgb_to_linear (real (16 * hi + lo) / 255)) * 255 + 1 / 2\<rfloor>
               = int (16 * hi + lo)"
    by (rule roundtrip_byte)
  then have "round_string (js_mul (LinearToSRGB (Fin (srgb_to_linear (real (16 * hi + lo) / 255))))
               (Fin 255)) = int_string (int (16 * hi + lo))"
    by (simp only: LinearToSRGB.simps js_mul.simps round_string.simps)
  also have "int_string (int (16 * hi + lo)) = nat_string (16 * hi + lo)"
    by (rule int_string_nat)
  finally show ?thesis
    unfolding byte_channel_def .
qed

section \<open>The colours of the program: auxiliary facts\<close>

lemma byte_channel_bounds:
  assumes "x = real (16 * hi + lo) / 255 * 0.9478672986 + 0.0521327014"
    and "0.04045 \<le> real (16 * hi + lo) / 255"
    and "0 \<le> l" and "l ^ 5 \<le> x ^ 12" and "x ^ 12 \<le> h ^ 5" and "0 \<le> h"
  shows "\<exists>v. byte_channel hi lo = Fin v \<and> l \<le> v \<and> v \<le> h"
proof -
  have "0 < x" unfolding assms(1) by (intro add_nonneg_pos mult_nonneg_nonneg) simp_all
  then have "l \<le> x powr 2.4 \<and> x powr 2.4 \<le> h"
    using assms(3-6) by (rule powr_24_bounds)
  then show ?thesis
    unfolding byte_channel_def srgb_to_linear_power [OF assms(2)] assms(1) by simp
qed

lemma channel_11: "\<exists>v. byte_channel 1 1 = Fin v \<and> 0.00560537 \<le> v \<and> v \<le> 0.00560542"
  by (rule byte_channel_bounds [where x = "1441548183 / 12500000000"])
     (simp_all add: power_divide divide_simps)

lemma channel_22: "\<exists>v. byte_channel 2 2 = Fin v \<and> 0.01599627 \<le> v \<and> v \<le> 0.01599632"
  by (rule byte_channel_bounds [where x = "4462875197 / 25000000000"])
     (simp_all add: power_divide divide_simps)

lemma channel_44: "\<exists>v. byte_channel 4 4 = Fin v \<and> 0.05780541 \<le> v \<and> v \<le> 0.05780546"
  by (rule byte_channel_bounds [where x = "7622432859 / 25000000000"])
     (simp_all add: power_divide divide_simps)

lemma sum_channel_style:
  assumes "\<exists>v. c1 = Fin v \<and> l1 \<le> v \<and> v \<le> h1" and "\<exists>v. c2 = Fin v \<and> l2 \<le> v \<and> v \<le> h2"
    and "0.02 \<le> l1 + l2" and "h1 + h2 \<le> 1"
    and "0 \<le> a" and "a ^ 12 \<le> (l1 + l2) ^ 5" and "0 \<le> b" and "(h1 + h2) ^ 5 \<le> b ^ 12"
    and "of_int n - 1 / 2 \<le> (1.055 * a - 0.055) * 255"
    and "(1.055 * (b * 1.0004) - 0.055) * 255 < of_int n + 1 / 2"
  shows "round_string (js_mul (LinearToSRGB (js_add c1 c2)) (Fin 255)) = int_string n"
proof -
  from assms(1) obtain v1 where v1: "c1 = Fin v1" "l1 \<le> v1" "v1 \<le> h1" by blast
  from assms(2) obtain v2 where v2: "c2 = Fin v2" "l2 \<le> v2" "v2 \<le> h2" by blast
  have "l1 + l2 \<le> v1 + v2" "v1 + v2 \<le> h1 + h2"
    using v1 v2 by simp_all
  with assms(3-8)
  have "1.055 * a - 0.055 \<le> linear_to_srgb (v1 + v2)
        \<and> linear_to_srgb (v1 + v2) \<le> 1.055 * (b * 1.0004) - 0.055"
    by (intro linear_to_srgb_bounds [where cl = "l1 + l2" and ch = "h1 + h2"]) simp_all
  then have "1.055 * a - 0.055 \<le> linear_to_srgb (v1 + v2)"
    and "linear_to_srgb (v1 + v2) \<le> 1.055 * (b * 1.0004) - 0.055"
    by blast+
  then have "\<lfloor>linear_to_srgb (v1 + v2) * 255 + 1 / 2\<rfloor> = n"
    using assms(9,10) by (rule round_between)
  then show ?thesis
    by (simp only: v1(1) v2(1) js_add.simps LinearToSRGB.simps js_mul.simps round_string.simps)
qed

lemma mixed_red:
  "round_string (js_mul (LinearToSRGB (js_add (byte_channel 2 2) (byte_channel 1 1))) (Fin 255))
     = int_string 40"
  by (rule sum_channel_style [OF channel_22 channel_11, where a = "404637 / 2000000"
        and b = "1011597 / 5000000"]) (simp_all add: power_divide divide_simps)

lemma mixed_blue:
  "round_string (js_mul (LinearToSRGB (js_add (byte_channel 4 4) (byte_channel 2 2))) (Fin 255))
     = int_string 77"
  by (rule sum_channel_style [OF channel_44 channel_22, where a = "135027 / 400000"
        and b = "1687841 / 5000000"]) (simp_all add: power_divide divide_simps)

lemma new_Color_222244:
  "new_Color other ''#222244'' = RGB (byte_channel 2 2) (byte_channel 2 2) (byte_channel 4 4)"
  by (simp add: new_Color_def hexDigit_def)

lemma new_Color_111122:
  "new_Color other ''#111122'' = RGB (byte_channel 1 1) (byte_channel 1 1) (byte_channel 2 2)"
  by (simp add: new_Color_def hexDigit_def)

lemma new_Color_e94560:
  "new_Color other ''#e94560'' = RGB (byte_channel 14 9) (byte_channel 4 5) (byte_channel 6 0)"
  by (simp add: new_Color_def hexDigit_def)

lemma decimal_strings:
  "int_string 40 = ''40''" "int_string 77 = ''77''" "nat_string 34 = ''34''"
  "nat_string 68 = ''68''" "nat_string 233 = ''233''"
  "nat_string 69 = ''69''" "nat_string 96 = ''96''"
  by code_simp+

lemma byte_styles:
  "round_string (js_mul (LinearToSRGB (byte_channel 2 2)) (Fin 255)) = ''34''"
  "round_string (js_mul (LinearToSRGB (byte_channel 4 4)) (Fin 255)) = ''68''"
  "round_string (js_mul (LinearToSRGB (byte_channel 14 9)) (Fin 255)) = ''233''"
  "round_string (js_mul (LinearToSRGB (byte_channel 4 5)) (Fin 255)) = ''69''"
  "round_string (js_mul (LinearToSRGB (byte_channel 6 0)) (Fin 255)) = ''96''"
  using byte_channel_style [of 2 2] byte_channel_style [of 4 4] byte_channel_style [of 14 9]
    byte_channel_style [of 4 5] byte_channel_style [of 6 0]
  by (simp_all add: decimal_strings)

lemma mixed_low_style:
  "getStyle (color_add (new_Color other ''#222244'') (new_Color other ''#111122''))
     = ''rgb(40,40,77)''"
  unfolding new_Color_222244 new_Color_111122 color_add.simps getStyle.simps
    mixed_red mixed_blue decimal_strings
  by simp

lemma style_222244: "getStyle (new_Color other ''#222244'') = ''rgb(34,34,68)''"
  unfolding new_Color_222244 getStyle.simps byte_styles by simp

lemma style_e94560: "getStyle (new_Color other ''#e94560'') = ''rgb(233,69,96)''"
  unfolding new_Color_e94560 getStyle.simps byte_styles by simp

section \<open>Interpolation: auxiliary facts\<close>

lemma finite_byte_channel: "\<exists>v. byte_channel hi lo = Fin v"
  by (simp add: byte_channel_def)

lemma finite_new_Color: "finite_color (new_Color other style)"
  by (auto simp: new_Color_def white_def byte_channel_def nibble_channel_def
           split: list.splits option.splits prod.splits)

lemma finite_color_add: "finite_color c \<Longrightarrow> finite_color d \<Longrightarrow> finite_color (color_add c d)"
  by (induction c rule: finite_color.induct; induction d rule: finite_color.induct) auto

lemma color_lerp_0: "finite_color c \<Longrightarrow> finite_color d \<Longrightarrow> color_lerp c d (Fin 0) = c"
  by (induction c rule: finite_color.induct; induction d rule: finite_color.induct)
     (auto simp: js_sub_def)

lemma color_lerp_1: "finite_color c \<Longrightarrow> finite_color d \<Longrightarrow> color_lerp c d (Fin 1) = d"
  by (induction c rule: finite_color.induct; induction d rule: finite_color.induct)
     (auto simp: js_sub_def)

lemma color_lerp_NaN:
  "finite_color c \<Longrightarrow> finite_color d \<Longrightarrow> color_lerp c d NaN = RGB NaN NaN NaN"
  by (induction c rule: finite_color.induct; induction d rule: finite_color.induct)
     (auto simp: js_sub_def)

lemma interpolation_t_finite_low:
  assumes "v \<le> mn" and "mn < mx"
  shows "interpolation_t (Fin v) (Fin mn) (Fin mx) = Fin 0"
proof -
  from assms have "(v - mn) / (mx - mn) \<le> 0"
    by (simp add: divide_le_0_iff)
  with assms show ?thesis
    by (auto simp: interpolation_t_def js_sub_def Math_min_def Math_max_def)
qed

lemma interpolation_t_low:
  assumes "js_le v (Fin mn)" and "mn < mx"
  shows "interpolation_t v (Fin mn) (Fin mx) = Fin 0"
proof (cases v)
  case (Fin x)
  with assms(1) have "x \<le> mn" by (simp add: js_le_def)
  then show ?thesis unfolding Fin using assms(2) by (rule interpolation_t_finite_low)
next
  case NInf
  then show ?thesis
    using assms(2)
    by (simp add: interpolation_t_def js_sub_def Math_min_def Math_max_def signed_inf_def)
qed (use assms(1) in \<open>simp_all add: js_le_def\<close>)

lemma interpolation_t_high:
  assumes "js_le (Fin mx) v" and "mn < mx"
  shows "interpolation_t v (Fin mn) (Fin mx) = Fin 1"
proof (cases v)
  case (Fin x)
  with assms(1) have "mx \<le> x" by (simp add: js_le_def)
  then show ?thesis unfolding Fin using assms(2)
    by (auto simp: interpolation_t_def js_sub_def Math_min_def Math_max_def)
next
  case PInf
  then show ?thesis
    using assms(2)
    by (simp add: interpolation_t_def js_sub_def Math_min_def Math_max_def signed_inf_def)
qed (use assms(1) in \<open>simp_all add: js_le_def\<close>)

lemma interpolation_t_clamped:
  assumes "mn < mx" and "v \<noteq> NaN"
  shows "\<exists>t. interpolation_t v (Fin mn) (Fin mx) = Fin t \<and> 0 \<le> t \<and> t \<le> 1"
  using assms
  by (cases v)
     (auto simp: interpolation_t_def js_sub_def Math_min_def Math_max_def signed_inf_def)

lemma interpolation_t_degenerate:
  "0 < mn \<Longrightarrow> interpolation_t (Fin 0) (Fin mn) (Fin mn) = Fin 0"
  "interpolation_t (Fin mn) (Fin mn) (Fin mn) = NaN"
  by (simp_all add: interpolation_t_def js_sub_def Math_min_def Math_max_def signed_inf_def)

lemma interpolateColor_at_t:
  "interpolateColor other v mn mx lo hi
     = getStyle (color_lerp (color_add (new_Color other lo) (new_Color other ''#111122''))
         (new_Color other hi) (interpolation_t v mn mx))"
  by (simp add: interpolateColor_def)

lemma interpolateColor_low:
  assumes "js_le v (Fin mn)" and "mn < mx"
  shows "interpolateColor other v (Fin mn) (Fin mx) lo hi
           = getStyle (color_add (new_Color other lo) (new_Color other ''#111122''))"
  using assms
  by (simp add: interpolateColor_at_t interpolation_t_low color_lerp_0 finite_new_Color
        finite_color_add)

lemma interpolateColor_high:
  assumes "js_le (Fin mx) v" and "mn < mx"
  shows "interpolateColor other v (Fin mn) (Fin mx) lo hi = getStyle (new_Color other hi)"
  using assms
  by (simp add: interpolateColor_at_t interpolation_t_high color_lerp_1 finite_new_Color
        finite_color_add)

lemma interpolateColor_heap_eq:
  "interpolateColor_heap other val mn mx lo hi h =
     (interpolateColor other val mn mx lo hi,
      h @ [new_Color other lo, new_Color other hi,
           color_lerp (color_add (new_Color other lo) (new_Color other ''#111122''))
             (new_Color other hi) (interpolation_t val mn mx),
           new_Color other ''#111122''])"
  by (simp add: interpolateColor_heap_def interpolateColor_def h_new_Color_def h_clone_def
        alloc_def h_add_def h_lerp_def h_getStyle_def Let_def nth_append list_update_append)

section \<open>Ranges: auxiliary facts\<close>

lemma foldl_Math_min_Fin:
  "foldl Math_min (Fin a) (map Fin vs) = Fin (Min (insert a (set vs)))"
proof (induction vs arbitrary: a)
  case Nil
  show ?case by simp
next
  case (Cons v vs)
  have "Math_min (Fin a) (Fin v) = Fin (min a v)"
    by (simp add: Math_min_def min_def)
  moreover have "Min (insert (min a v) (set vs)) = Min (insert a (insert v (set vs)))"
    by (cases "set vs = {}") (simp_all add: min.assoc)
  ultimately show ?case
    using Cons.IH [of "min a v"] by (simp add: insert_commute)
qed

lemma foldl_Math_max_Fin:
  "foldl Math_max (Fin a) (map Fin vs) = Fin (Max (insert a (set vs)))"
proof (induction vs arbitrary: a)
  case Nil
  show ?case by simp
next
  case (Cons v vs)
  have "Math_max (Fin a) (Fin v) = Fin (max a v)"
    by (simp add: Math_max_def max_def)
  moreover have "Max (insert (max a v) (set vs)) = Max (insert a (insert v (set vs)))"
    by (cases "set vs = {}") (simp_all add: max.assoc)
  ultimately show ?case
    using Cons.IH [of "max a v"] by (simp add: insert_commute)
qed

lemma Math_min_of_Fin:
  "Math_min_of (map Fin vs) = (if vs = [] then PInf else Fin (Min (set vs)))"
proof (cases vs)
  case Nil
  then show ?thesis by (simp add: Math_min_of_def)
next
  case (Cons v ws)
  have "Math_min PInf (Fin v) = Fin v"
    by (simp add: Math_min_def)
  then show ?thesis
    using Cons foldl_Math_min_Fin [of v ws] by (simp add: Math_min_of_def)
qed

lemma Math_max_of_Fin:
  "Math_max_of (map Fin vs) = (if vs = [] then NInf else Fin (Max (set vs)))"
proof (cases vs)
  case Nil
  then show ?thesis by (simp add: Math_max_of_def)
next
  case (Cons v ws)
  have "Math_max NInf (Fin v) = Fin v"
    by (simp add: Math_max_def)
  then show ?thesis
    using Cons foldl_Math_max_Fin [of v ws] by (simp add: Math_max_of_def)
qed

lemma scan_range_min_max:
  "scan_range keep val els = min_max (val ` {e \<in> set els. keep e})"
proof -
  let ?vs = "map val (filter keep els)"
  have m: "map (\<lambda>e. Fin (val e)) (filter keep els) = map Fin ?vs"
    by simp
  have s: "set ?vs = val ` {e \<in> set els. keep e}"
    by simp
  have e: "(?vs = []) = (val ` {e \<in> set els. keep e} = {})"
    using s by (metis set_empty)
  have "scan_range keep val els = (Math_min_of (map Fin ?vs), Math_max_of (map Fin ?vs))"
    unfolding scan_range_def m ..
  also have "\<dots> = (if ?vs = [] then (PInf, NInf) else (Fin (Min (set ?vs)), Fin (Max (set ?vs))))"
    unfolding Math_min_of_Fin Math_max_of_Fin by simp
  also have "\<dots> = min_max (val ` {e \<in> set els. keep e})"
    unfolding min_max_def e s ..
  finally show ?thesis .
qed

lemma present_values_option:
  "(\<lambda>e. the (f e)) ` {e \<in> set els. f e \<noteq> None} = present_values f els"
proof -
  have "{x \<in> f ` set els. x \<noteq> None} = f ` {e \<in> set els. f e \<noteq> None}"
    by blast
  then show ?thesis
    unfolding present_values_def Option.these_def by (simp only: image_image)
qed

lemma scan_range_option:
  "scan_range (\<lambda>e. f e \<noteq> None) (\<lambda>e. the (f e)) els = min_max (present_values f els)"
  unfolding scan_range_min_max present_values_option ..

lemma first_ionization_hd:
  "length (ionization_energies e) > 0 \<longleftrightarrow> first_ionization e \<noteq> None"
  "first_ionization e \<noteq> None \<Longrightarrow> hd (ionization_energies e) = the (first_ionization e)"
  by (simp_all add: first_ionization_def split: list.splits)

lemma scan_range_ionization:
  "scan_range (\<lambda>e. length (ionization_energies e) > 0) (\<lambda>e. hd (ionization_energies e)) els
     = min_max (present_values first_ionization els)"
proof -
  have "filter (\<lambda>e. length (ionization_energies e) > 0) els
          = filter (\<lambda>e. first_ionization e \<noteq> None) els"
    by (simp only: first_ionization_hd(1))
  moreover have "map (\<lambda>e. Fin (hd (ionization_energies e)))
                   (filter (\<lambda>e. first_ionization e \<noteq> None) els)
                 = map (\<lambda>e. Fin (the (first_ionization e)))
                   (filter (\<lambda>e. first_ionization e \<noteq> None) els)"
    by (rule map_cong) (simp_all add: first_ionization_hd(2))
  ultimately have "scan_range (\<lambda>e. length (ionization_energies e) > 0)
                     (\<lambda>e. hd (ionization_energies e)) els
                   = scan_range (\<lambda>e. first_ionization e \<noteq> None)
                       (\<lambda>e. the (first_ionization e)) els"
    unfolding scan_range_def by (simp only:)
  then show ?thesis
    by (simp only: scan_range_option)
qed

lemma scan_range_all:
  "scan_range (\<lambda>e. True) val els = min_max (val ` set els)"
  unfolding scan_range_min_max by simp

lemma ranges_nonempty:
  assumes "els \<noteq> []"
  shows "ranges els ''atomic_mass'' = Some (min_max (atomic_mass ` set els))"
    and "ranges els ''density'' = Some (min_max (present_values density els))"
    and "ranges els ''electronegativity''
           = Some (min_max (present_values electronegativity_pauling els))"
    and "ranges els ''ionization'' = Some (min_max (present_values first_ionization els))"
    and "ranges els ''electron_affinity''
           = Some (min_max (present_values electron_affinity els))"
  using assms
  unfolding ranges_def scan_range_option scan_range_ionization scan_range_all
  by simp_all

lemma categorical_color_ignores_ranges:
  "m \<in> {Category, Phase, Block, Cpk} \<Longrightarrow> ElementBlock_color other m e rs = ElementBlock_color other m e rs'"
  by auto

lemma legend_categorical:
  "m \<in> {Category, Phase, Block, Cpk} \<Longrightarrow> legend m rs = None"
  by (auto simp: legend_def propertyConfigs_def)

lemma legend_numeric:
  "m \<notin> {Category, Phase, Block, Cpk} \<Longrightarrow>
   map_option legend_min (legend m rs) = Some (map_option (\<lambda>r. toFixed1 (fst r)) (rs (mode_key m)))
   \<and> map_option legend_max (legend m rs) = Some (map_option (\<lambda>r. toFixed1 (snd r)) (rs (mode_key m)))"
  by (cases m) (simp_all add: legend_def propertyConfigs_def)

lemma sample_values:
  "min_max (present_values density sample_table) = (Fin 0.08988, Fin 0.1786)"
  "min_max (present_values electronegativity_pauling sample_table) = (Fin 2.2, Fin 2.2)"
  "min_max (present_values density [sample_unmeasured]) = (PInf, NInf)"
  by code_simp+


section \<open>The colour interpolation\<close>

text \<open>
  C1, counterexample. At the range minimum (\<open>v = min = 0\<close>, \<open>max = 1\<close>) with the
  colours of the atomic-mass mode the result is \<open>rgb(40,40,77)\<close>: not the string
  \<open>#222244\<close>, and not its colour either, which the library prints as
  \<open>rgb(34,34,68)\<close>.
\<close>
theorem interpolateColor_at_min_counterexample:
  "interpolateColor unread (Fin 0) (Fin 0) (Fin 1) ''#222244'' ''#e94560'' = ''rgb(40,40,77)''
   \<and> getStyle (new_Color unread ''#222244'') = ''rgb(34,34,68)''
   \<and> interpolateColor unread (Fin 0) (Fin 0) (Fin 1) ''#222244'' ''#e94560''
       \<noteq> getStyle (new_Color unread ''#222244'')
   \<and> interpolateColor unread (Fin 0) (Fin 0) (Fin 1) ''#222244'' ''#e94560'' \<noteq> ''#222244''"
proof -
  have "js_le (Fin 0) (Fin 0)" "(0 :: real) < 1"
    by (simp_all add: js_le_def)
  then have "interpolateColor unread (Fin 0) (Fin 0) (Fin 1) ''#222244'' ''#e94560''
               = ''rgb(40,40,77)''"
    by (simp add: interpolateColor_low mixed_low_style)
  then show ?thesis
    by (simp add: style_222244)
qed

text \<open>
  C1, as amended. For a range with \<open>min < max\<close> and every value \<open>v \<le> min\<close>,
  \<open>interpolateColor\<close> returns the \<open>rgb()\<close> text of the colour that \<open>colorLow\<close>
  and \<open>#111122\<close> add up to, channel by channel in the library's linear working space,
  whatever \<open>colorHigh\<close> is.
\<close>
theorem interpolateColor_at_min:
  "js_le v (Fin mn) \<Longrightarrow> mn < mx \<Longrightarrow>
   interpolateColor other v (Fin mn) (Fin mx) colorLow colorHigh
     = getStyle (color_add (new_Color other colorLow) (new_Color other ''#111122''))"
  by (rule interpolateColor_low)

text \<open>
  C1, witness: the value \<open>-3\<close> against the range from 2 to 10, with the colours of the
  atomic-mass mode.
\<close>
theorem interpolateColor_at_min_witness:
  "js_le (Fin (- 3)) (Fin 2) \<and> (2 :: real) < 10
   \<and> interpolateColor unread (Fin (- 3)) (Fin 2) (Fin 10) ''#222244'' ''#e94560''
       = getStyle (color_add (new_Color unread ''#222244'') (new_Color unread ''#111122''))
   \<and> interpolateColor unread (Fin (- 3)) (Fin 2) (Fin 10) ''#222244'' ''#e94560''
       = ''rgb(40,40,77)''"
proof -
  have h: "js_le (Fin (- 3)) (Fin 2)" "(2 :: real) < 10"
    by (simp_all add: js_le_def)
  from interpolateColor_at_min [OF h, of unread "''#222244''" "''#e94560''"] h show ?thesis
    by (simp add: mixed_low_style)
qed

text \<open>
  C5. For a range with \<open>min < max\<close>: at every value \<open>v \<ge> max\<close>,
  \<open>interpolateColor\<close> returns the high-range colour, that is the text that the
  library prints for the colour \<open>colorHigh\<close>; and at every value the factor \<open>t\<close> is a
  number between 0 and 1 (a value is a number, not NaN).
\<close>
theorem interpolateColor_at_max:
  "mn < mx \<Longrightarrow>
   (js_le (Fin mx) v \<longrightarrow>
      interpolateColor other v (Fin mn) (Fin mx) colorLow colorHigh
        = getStyle (new_Color other colorHigh))
   \<and> (v \<noteq> NaN \<longrightarrow> (\<exists>t. interpolation_t v (Fin mn) (Fin mx) = Fin t \<and> 0 \<le> t \<and> t \<le> 1))"
  by (simp add: interpolateColor_high interpolation_t_clamped)

text \<open>
  C5, witness: the value 12 against the range from 2 to 10; the high colour
  \<open>#e94560\<close> comes back as \<open>rgb(233,69,96)\<close>, which are its three bytes.
\<close>
theorem interpolateColor_at_max_witness:
  "(2 :: real) < 10
   \<and> js_le (Fin 10) (Fin 12)
   \<and> interpolateColor unread (Fin 12) (Fin 2) (Fin 10) ''#222244'' ''#e94560''
       = getStyle (new_Color unread ''#e94560'')
   \<and> interpolateColor unread (Fin 12) (Fin 2) (Fin 10) ''#222244'' ''#e94560''
       = ''rgb(233,69,96)''
   \<and> Fin 12 \<noteq> NaN
   \<and> (\<exists>t. interpolation_t (Fin 12) (Fin 2) (Fin 10) = Fin t \<and> 0 \<le> t \<and> t \<le> 1)"
proof -
  have h: "(2 :: real) < 10"
    by simp
  have g: "js_le (Fin 10) (Fin 12)" "Fin 12 \<noteq> NaN"
    by (simp_all add: js_le_def)
  from interpolateColor_at_max [OF h, of "Fin 12" unread "''#222244''" "''#e94560''"] h g
  show ?thesis
    by (simp add: style_e94560)
qed

text \<open>
  C7. \<open>interpolateColor\<close> is pure and deterministic: run on any store of colour
  objects, it returns the string that its five arguments determine, so two calls with equal
  arguments return equal strings whatever the stores are; and every object that was in the
  store before the call is as it was after it (the call only writes cells it allocated).
\<close>
theorem interpolateColor_pure:
  "fst (interpolateColor_heap other val mn mx colorLow colorHigh h)
     = interpolateColor other val mn mx colorLow colorHigh
   \<and> fst (interpolateColor_heap other val mn mx colorLow colorHigh h)
     = fst (interpolateColor_heap other val mn mx colorLow colorHigh h')
   \<and> take (length h) (snd (interpolateColor_heap other val mn mx colorLow colorHigh h)) = h"
  by (simp add: interpolateColor_heap_eq)

section \<open>The property ranges\<close>

text \<open>
  C3, counterexample. The range is not used for colour interpolation only: in the density
  mode the legend prints both bounds of the computed range as text, here \<open>0.1\<close> and
  \<open>0.2\<close> for the range from 0.08988 to 0.1786 of the sample table, and another upper
  bound, \<open>0.1\<close>, for the range of the table of its first record alone.
\<close>
theorem ranges_only_interpolation_counterexample:
  "ranges sample_table ''density'' = Some (Fin 0.08988, Fin 0.1786)
   \<and> map_option legend_min (legend Density (ranges sample_table)) = Some (Some ''0.1'')
   \<and> map_option legend_max (legend Density (ranges sample_table)) = Some (Some ''0.2'')
   \<and> ranges [sample_hydrogen] ''density'' = Some (Fin 0.08988, Fin 0.08988)
   \<and> map_option legend_max (legend Density (ranges [sample_hydrogen])) = Some (Some ''0.1'')"
  by code_simp

text \<open>
  C3, as amended. For a non-empty list of records the range of each numeric property is
  the pair of the minimum and the maximum of that property's values over the records that
  have one (all records, for the atomic mass), and the pair \<open>(Infinity, -Infinity)\<close> when
  no record has one. The table of ranges has two readers, the colour of an element block and
  the legend: in the four modes that do not interpolate neither depends on it (the legend is
  absent), and in the five interpolating modes the legend prints the two bounds of the
  range of the mode with one decimal.
\<close>
theorem ranges_min_max:
  "(els \<noteq> [] \<longrightarrow>
      ranges els ''atomic_mass'' = Some (min_max (atomic_mass ` set els))
    \<and> ranges els ''density'' = Some (min_max (present_values density els))
    \<and> ranges els ''electronegativity''
        = Some (min_max (present_values electronegativity_pauling els))
    \<and> ranges els ''ionization'' = Some (min_max (present_values first_ionization els))
    \<and> ranges els ''electron_affinity''
        = Some (min_max (present_values electron_affinity els)))
   \<and> (m \<in> {Category, Phase, Block, Cpk} \<longrightarrow>
        ElementBlock_color other m e rs = ElementBlock_color other m e rs' \<and> legend m rs = None)
   \<and> (m \<notin> {Category, Phase, Block, Cpk} \<longrightarrow>
        map_option legend_min (legend m rs)
          = Some (map_option (\<lambda>r. toFixed1 (fst r)) (rs (mode_key m)))
      \<and> map_option legend_max (legend m rs)
          = Some (map_option (\<lambda>r. toFixed1 (snd r)) (rs (mode_key m))))"
proof (intro conjI impI)
  assume "m \<in> {Category, Phase, Block, Cpk}"
  then show "ElementBlock_color other m e rs = ElementBlock_color other m e rs'"
    and "legend m rs = None"
    by (rule categorical_color_ignores_ranges, rule legend_categorical)
next
  assume "m \<notin> {Category, Phase, Block, Cpk}"
  from legend_numeric [OF this]
  show "map_option legend_min (legend m rs)
          = Some (map_option (\<lambda>r. toFixed1 (fst r)) (rs (mode_key m)))"
    and "map_option legend_max (legend m rs)
          = Some (map_option (\<lambda>r. toFixed1 (snd r)) (rs (mode_key m)))"
    by blast+
qed (rule ranges_nonempty; assumption)+

text \<open>C3, witness: the sample table, the phase mode and the density mode.\<close>
theorem ranges_min_max_witness:
  "sample_table \<noteq> []
   \<and> ranges sample_table ''density'' = Some (Fin 0.08988, Fin 0.1786)
   \<and> ranges sample_table ''electronegativity'' = Some (Fin 2.2, Fin 2.2)
   \<and> ranges [sample_unmeasured] ''density'' = Some (PInf, NInf)
   \<and> Phase \<in> {Category, Phase, Block, Cpk}
   \<and> ElementBlock_color unread Phase sample_helium (ranges sample_table)
       = ElementBlock_color unread Phase sample_helium Map.empty
   \<and> legend Phase (ranges sample_table) = None
   \<and> Density \<notin> {Category, Phase, Block, Cpk}
   \<and> map_option legend_min (legend Density (ranges sample_table))
       = Some (map_option (\<lambda>r. toFixed1 (fst r)) (ranges sample_table ''density''))"
proof -
  have ne: "sample_table \<noteq> []" "[sample_unmeasured] \<noteq> []"
    by (simp_all add: sample_table_def)
  have p: "Phase \<in> {Category, Phase, Block, Cpk}" "Density \<notin> {Category, Phase, Block, Cpk}"
    by simp_all
  note a = ranges_min_max [of sample_table Phase unread sample_helium "ranges sample_table" Map.empty]
  note b = ranges_min_max [of "[sample_unmeasured]" Density unread sample_helium "ranges sample_table"
              "ranges sample_table"]
  from a ne(1) have "ranges sample_table ''density''
      = Some (min_max (present_values density sample_table))"
    and "ranges sample_table ''electronegativity''
      = Some (min_max (present_values electronegativity_pauling sample_table))"
    by blast+
  then have "ranges sample_table ''density'' = Some (Fin 0.08988, Fin 0.1786)"
    and "ranges sample_table ''electronegativity'' = Some (Fin 2.2, Fin 2.2)"
    by (simp_all only: sample_values)
  moreover from b ne(2) have "ranges [sample_unmeasured] ''density''
      = Some (min_max (present_values density [sample_unmeasured]))"
    by blast
  then have "ranges [sample_unmeasured] ''density'' = Some (PInf, NInf)"
    by (simp only: sample_values)
  moreover from a p(1) have "ElementBlock_color unread Phase sample_helium (ranges sample_table)
       = ElementBlock_color unread Phase sample_helium Map.empty"
    and "legend Phase (ranges sample_table) = None"
    by blast+
  moreover from b p(2) have "map_option legend_min (legend Density (ranges sample_table))
       = Some (map_option (\<lambda>r. toFixed1 (fst r)) (ranges sample_table (mode_key Density)))"
    by blast
  ultimately show ?thesis
    using ne(1) p by simp
qed

section \<open>Element colours: auxiliary facts\<close>

lemma lookup_or_missing:
  assumes "key \<notin> set (map fst table)" and "key \<notin> set Object_prototype_names"
  shows "lookup_or table key fallback = Str fallback"
proof -
  from assms(1) have "map_of table key = None"
    by (simp add: map_of_eq_None_iff)
  with assms(2) show ?thesis
    by (simp add: lookup_or_def)
qed

lemma lookup_or_inherited:
  assumes "key \<notin> set (map fst table)" and "key \<in> set Object_prototype_names"
  shows "lookup_or table key fallback = Inherited key"
proof -
  from assms(1) have "map_of table key = None"
    by (simp add: map_of_eq_None_iff)
  with assms(2) show ?thesis
    by (simp add: lookup_or_def)
qed

lemma ElementBlock_color_total:
  assumes "els \<noteq> []"
  shows "\<exists>c. ElementBlock_color other m e (ranges els) = Inr c"
  using assms by (cases m) (simp_all add: ranges_def interpolate_in_def split: prod.splits)

text \<open>
  The fallback as far as it holds: a category, phase or block that is neither a key of the
  table nor a name inherited from \<open>Object.prototype\<close> is coloured \<open>#444444\<close>, and so is
  a null \<open>cpk_hex\<close>; no mode throws on an element of the loaded list.
\<close>

lemma color_fallback:
  "(category e \<notin> set (map fst categoryColors) \<and> category e \<notin> set Object_prototype_names \<longrightarrow>
      ElementBlock_color other Category e rs = Inr (Str ''#444444''))
   \<and> (phase e \<notin> set (map fst phaseColors) \<and> phase e \<notin> set Object_prototype_names \<longrightarrow>
      ElementBlock_color other Phase e rs = Inr (Str ''#444444''))
   \<and> (block e \<notin> set (map fst blockColors) \<and> block e \<notin> set Object_prototype_names \<longrightarrow>
      ElementBlock_color other Block e rs = Inr (Str ''#444444''))
   \<and> (cpk_hex e = None \<longrightarrow> ElementBlock_color other Cpk e rs = Inr (Str ''#444444''))
   \<and> (e \<in> set els \<longrightarrow> (\<exists>c. ElementBlock_color other m e (ranges els) = Inr c))"
proof (intro conjI impI)
  assume "e \<in> set els"
  then have "els \<noteq> []" by auto
  then show "\<exists>c. ElementBlock_color other m e (ranges els) = Inr c"
    by (rule ElementBlock_color_total)
qed (simp_all add: lookup_or_missing)

lemma inherited_color:
  "category e \<notin> set (map fst categoryColors) \<Longrightarrow> category e \<in> set Object_prototype_names \<Longrightarrow>
   ElementBlock_color other Category e rs = Inr (Inherited (category e))"
  by (simp add: lookup_or_inherited)

section \<open>The fallback colour\<close>

text \<open>
  C9. The fallback misses the names that every object inherits. The category
  \<open>constructor\<close> is not a key of the table of category colours, yet an element of that
  category is not coloured \<open>#444444\<close>: the memo returns the inherited member
  \<open>constructor\<close>, which is a function and no colour. An element whose category is
  neither a key nor an inherited name, and whose \<open>cpk_hex\<close> is null, is coloured
  \<open>#444444\<close> in the category and in the cpk mode.
\<close>
theorem inherited_category_color:
  "category sample_inherited = ''constructor''
   \<and> category sample_inherited \<notin> set (map fst categoryColors)
   \<and> ElementBlock_color unread Category sample_inherited (ranges sample_table)
       = Inr (Inherited ''constructor'')
   \<and> ElementBlock_color unread Category sample_inherited (ranges sample_table)
       \<noteq> Inr (Str ''#444444'')
   \<and> ElementBlock_color unread Category sample_unmeasured (ranges sample_table)
       = Inr (Str ''#444444'')
   \<and> ElementBlock_color unread Cpk sample_unmeasured (ranges sample_table)
       = Inr (Str ''#444444'')"
  by (simp add: sample_inherited_def sample_unmeasured_def categoryColors_def lookup_or_def
        Object_prototype_names_def)

section \<open>Missing values\<close>

lemma interpolateColor_zero_eq_min:
  assumes "0 < mn" and "mn < mx"
  shows "interpolateColor other (Fin 0) (Fin mn) (Fin mx) low high
           = interpolateColor other (Fin mn) (Fin mn) (Fin mx) low high"
  using assms by (simp add: interpolateColor_low js_le_def)

lemma interpolation_t_zero:
  "0 < mn \<Longrightarrow> mn < mx \<Longrightarrow> interpolation_t (Fin 0) (Fin mn) (Fin mx) = Fin 0"
  by (rule interpolation_t_finite_low) simp_all

text \<open>
  C10, as amended. In the density, electronegativity, ionization and electron-affinity
  modes an element whose value is missing (null, or an empty list of ionization energies)
  is coloured by interpolating the value 0; when the range of the mode is finite with
  \<open>0 < min < max\<close> this gives \<open>t = 0\<close>, and the element has the colour of an element
  whose value is the range minimum.
\<close>
theorem missing_value_color:
  assumes "0 < mn" and "mn < mx"
  shows "(rs ''density'' = Some (Fin mn, Fin mx) \<and> density e = None \<and> density e' = Some mn \<longrightarrow>
            ElementBlock_color other Density e rs
              = Inr (Str (interpolateColor other (Fin 0) (Fin mn) (Fin mx) ''#222244'' ''#00d2ff''))
          \<and> ElementBlock_color other Density e rs = ElementBlock_color other Density e' rs)
       \<and> (rs ''electronegativity'' = Some (Fin mn, Fin mx) \<and> electronegativity_pauling e = None
            \<and> electronegativity_pauling e' = Some mn \<longrightarrow>
            ElementBlock_color other Electronegativity e rs
              = Inr (Str (interpolateColor other (Fin 0) (Fin mn) (Fin mx) ''#222244'' ''#f9d423''))
          \<and> ElementBlock_color other Electronegativity e rs
              = ElementBlock_color other Electronegativity e' rs)
       \<and> (rs ''ionization'' = Some (Fin mn, Fin mx) \<and> ionization_energies e = []
            \<and> first_ionization e' = Some mn \<longrightarrow>
            ElementBlock_color other Ionization e rs
              = Inr (Str (interpolateColor other (Fin 0) (Fin mn) (Fin mx) ''#222244'' ''#a8ff78''))
          \<and> ElementBlock_color other Ionization e rs = ElementBlock_color other Ionization e' rs)
       \<and> (rs ''electron_affinity'' = Some (Fin mn, Fin mx) \<and> electron_affinity e = None
            \<and> electron_affinity e' = Some mn \<longrightarrow>
            ElementBlock_color other Electron_affinity e rs
              = Inr (Str (interpolateColor other (Fin 0) (Fin mn) (Fin mx) ''#222244'' ''#ff0080''))
          \<and> ElementBlock_color other Electron_affinity e rs
              = ElementBlock_color other Electron_affinity e' rs)
       \<and> interpolation_t (Fin 0) (Fin mn) (Fin mx) = Fin 0"
  using assms
  by (auto simp: interpolate_in_def or_zero_def first_or_zero_def first_ionization_def
        interpolateColor_zero_eq_min interpolation_t_zero
        split: list.splits)

lemma degenerate_range:
  "ranges [sample_two, sample_unmeasured] ''density'' = Some (Fin 2, Fin 2)"
  "density sample_unmeasured = None" "density sample_two = Some 2"
  by code_simp+

text \<open>
  C10, counterexample. Two records, one with density 2 and one without density: the
  computed range is \<open>(2, 2)\<close>, its minimum is positive, the record without density is
  coloured with \<open>t = 0\<close>, which gives \<open>rgb(40,40,77)\<close>, but the record at the range
  minimum is coloured with \<open>t = 0/0\<close>, which is NaN, and so are its channels.
\<close>
theorem missing_value_color_counterexample:
  "ranges [sample_two, sample_unmeasured] ''density'' = Some (Fin 2, Fin 2)
   \<and> density sample_unmeasured = None
   \<and> density sample_two = Some 2
   \<and> ElementBlock_color unread Density sample_unmeasured (ranges [sample_two, sample_unmeasured])
       = Inr (Str ''rgb(40,40,77)'')
   \<and> ElementBlock_color unread Density sample_two (ranges [sample_two, sample_unmeasured])
       = Inr (Str ''rgb(NaN,NaN,NaN)'')"
proof -
  have a: "interpolateColor unread (Fin 0) (Fin 2) (Fin 2) ''#222244'' ''#00d2ff''
             = ''rgb(40,40,77)''"
    by (simp add: interpolateColor_at_t interpolation_t_degenerate color_lerp_0
          finite_new_Color finite_color_add mixed_low_style)
  have b: "interpolateColor unread (Fin 2) (Fin 2) (Fin 2) ''#222244'' ''#00d2ff''
             = ''rgb(NaN,NaN,NaN)''"
    by (simp add: interpolateColor_at_t interpolation_t_degenerate color_lerp_NaN
          finite_new_Color finite_color_add)
  show ?thesis
    using a b
    by (simp add: degenerate_range interpolate_in_def or_zero_def)
qed

text \<open>C10, witness: the range from 2 to 5 in the four modes.\<close>
theorem missing_value_color_witness:
  "(0 :: real) < 2 \<and> (2 :: real) < 5
   \<and> sample_ranges ''density'' = Some (Fin 2, Fin 5)
   \<and> density sample_unmeasured = None \<and> density sample_two = Some 2
   \<and> ElementBlock_color unread Density sample_unmeasured sample_ranges
       = ElementBlock_color unread Density sample_two sample_ranges
   \<and> sample_ranges ''electronegativity'' = Some (Fin 2, Fin 5)
   \<and> electronegativity_pauling sample_unmeasured = None
   \<and> electronegativity_pauling sample_two = Some 2
   \<and> ElementBlock_color unread Electronegativity sample_unmeasured sample_ranges
       = ElementBlock_color unread Electronegativity sample_two sample_ranges
   \<and> sample_ranges ''ionization'' = Some (Fin 2, Fin 5)
   \<and> ionization_energies sample_unmeasured = []
   \<and> first_ionization sample_two = Some 2
   \<and> ElementBlock_color unread Ionization sample_unmeasured sample_ranges
       = ElementBlock_color unread Ionization sample_two sample_ranges
   \<and> sample_ranges ''electron_affinity'' = Some (Fin 2, Fin 5)
   \<and> electron_affinity sample_unmeasured = None
   \<and> electron_affinity sample_two = Some 2
   \<and> ElementBlock_color unread Electron_affinity sample_unmeasured sample_ranges
       = ElementBlock_color unread Electron_affinity sample_two sample_ranges"
proof -
  have h: "(0 :: real) < 2" "(2 :: real) < 5"
    "sample_ranges ''density'' = Some (Fin 2, Fin 5)"
    "sample_ranges ''electronegativity'' = Some (Fin 2, Fin 5)"
    "sample_ranges ''ionization'' = Some (Fin 2, Fin 5)"
    "sample_ranges ''electron_affinity'' = Some (Fin 2, Fin 5)"
    by (simp_all add: sample_ranges_def)
  have m: "density sample_unmeasured = None" "electronegativity_pauling sample_unmeasured = None"
    "ionization_energies sample_unmeasured = []" "electron_affinity sample_unmeasured = None"
    by (simp_all add: sample_unmeasured_def)
  have v: "density sample_two = Some 2" "electronegativity_pauling sample_two = Some 2"
    "first_ionization sample_two = Some 2" "electron_affinity sample_two = Some 2"
    by (simp_all add: sample_two_def first_ionization_def)
  from missing_value_color [OF h(1,2), where rs = sample_ranges and e = sample_unmeasured
      and e' = sample_two and other = unread] h m v
  show ?thesis by blast
qed

section \<open>Hover and selection\<close>

lemma locked_initial: "locked initial_state"
  by (simp add: locked_def initial_state_def)

lemma locked_handle: "on_element ev \<Longrightarrow> locked st \<Longrightarrow> locked (handle st ev)"
  by (cases ev)
     (auto simp: locked_def onClick_def onPointerOver_def onPointerOut_def onPointerMissed_def
        resetScene_def isSelected_def js_not_def Let_def split: option.splits)

lemma locked_foldl:
  "\<forall>ev \<in> set evs. on_element ev \<Longrightarrow> locked st \<Longrightarrow> locked (foldl handle st evs)"
  by (induction evs arbitrary: st) (simp_all add: locked_handle)

lemma locked_run: "\<forall>ev \<in> set evs. on_element ev \<Longrightarrow> locked (run evs initial_state)"
  unfolding run_def by (rule locked_foldl) (simp_all add: locked_initial)

lemma card_isHovered: "card {n. isHovered st n} \<le> 1"
proof (cases "hoveredElementId st")
  case None
  then show ?thesis by (simp add: isHovered_def)
next
  case (Some k)
  then have "{n. isHovered st n} = {k}" by (auto simp: isHovered_def)
  then show ?thesis by simp
qed

lemma card_isSelected: "card {n. isSelected st n} \<le> 1"
proof (cases "selectedElementId st")
  case None
  then show ?thesis by (simp add: isSelected_def)
next
  case (Some k)
  then have "{n. isSelected st n} = {k}" by (auto simp: isSelected_def)
  then show ?thesis by simp
qed

lemma locked_pointer_over:
  "locked st \<Longrightarrow> selectedElementId st \<noteq> None \<Longrightarrow> onPointerOver hasMouse n st = st"
  by (auto simp: locked_def onPointerOver_def js_not_def split: option.splits)

text \<open>
  C4. In every state \<open>st\<close> that the handlers (pointer over, pointer out, click on an
  element, click on empty space, reset) reach from the initial state, the events on blocks
  being those of elements numbered 1 to 118: at most one number is hovered, at most one is
  selected, and when an element is selected nothing is hovered and no pointer-over event,
  on whatever block, changes the state.
\<close>
theorem selection_locks_hover:
  assumes "\<forall>ev \<in> set evs. on_element ev" and "st = run evs initial_state"
  shows "card {n. isHovered st n} \<le> 1
       \<and> card {n. isSelected st n} \<le> 1
       \<and> (selectedElementId st \<noteq> None \<longrightarrow>
            hoveredElementId st = None
          \<and> (\<forall>hasMouse n. onPointerOver hasMouse n st = st))"
proof (intro conjI impI allI)
  have l: "locked st"
    unfolding assms(2) using assms(1) by (rule locked_run)
  show "card {n. isHovered st n} \<le> 1"
    by (rule card_isHovered)
  show "card {n. isSelected st n} \<le> 1"
    by (rule card_isSelected)
  assume s: "selectedElementId st \<noteq> None"
  with l show "hoveredElementId st = None"
    by (simp add: locked_def)
  fix hasMouse n
  from l s show "onPointerOver hasMouse n st = st"
    by (rule locked_pointer_over)
qed

text \<open>C4, witness: after the sample events element 3 is selected and hover is locked.\<close>
theorem selection_locks_hover_witness:
  "list_all on_element sample_events
   \<and> selectedElementId (run sample_events (initial_state :: unit scene_state)) \<noteq> None
   \<and> selectedElementId (run sample_events (initial_state :: unit scene_state)) = Some 3
   \<and> hoveredElementId (run sample_events (initial_state :: unit scene_state)) = None
   \<and> onPointerOver True 7 (run sample_events (initial_state :: unit scene_state))
       = run sample_events initial_state"
proof -
  have h: "\<forall>ev \<in> set sample_events. on_element ev"
    by (simp add: sample_events_def)
  have s: "selectedElementId (run sample_events (initial_state :: unit scene_state)) = Some 3"
    by (simp add: sample_events_def run_def onClick_def onPointerOver_def isSelected_def
          js_not_def initial_state_def)
  then have n: "selectedElementId (run sample_events (initial_state :: unit scene_state)) \<noteq> None"
    by simp
  have a: "list_all on_element sample_events"
    using h by (simp only: list_all_iff)
  from selection_locks_hover [OF h refl] n a s show ?thesis
    by blast
qed

section \<open>Clicks\<close>

lemma onClick_selected:
  "selectedElementId (onClick n st) = (if selectedElementId st = Some n then None else Some n)"
  "hoveredElementId (onClick n st) = None"
  by (simp_all add: onClick_def isSelected_def)

text \<open>
  C8, counterexample. Element 5 is selected by one click; two more clicks on it, one
  after the other, end with element 5 selected, not with a null selection.
\<close>
theorem click_twice_counterexample:
  "selectedElementId (onClick 5 (initial_state :: unit scene_state)) = Some 5
   \<and> selectedElementId (onClick 5 (onClick 5 (onClick 5 (initial_state :: unit scene_state))))
       = Some 5
   \<and> selectedElementId (onClick 5 (onClick 5 (onClick 5 (initial_state :: unit scene_state))))
       \<noteq> None"
  by (simp add: onClick_selected initial_state_def)

text \<open>
  C8, as amended. A click on an element toggles its selection: the selection becomes null
  when the element was selected and the element's number otherwise, and the hovered number
  becomes null in both cases. Two clicks in a row on an element that was not selected
  before them leave the selection null; on an element that was selected they leave it
  selected.
\<close>
theorem click_toggles:
  "selectedElementId (onClick n st) = (if selectedElementId st = Some n then None else Some n)
   \<and> hoveredElementId (onClick n st) = None
   \<and> (selectedElementId st \<noteq> Some n \<longrightarrow> selectedElementId (onClick n (onClick n st)) = None)
   \<and> (selectedElementId st = Some n \<longrightarrow> selectedElementId (onClick n (onClick n st)) = Some n)"
  by (simp add: onClick_selected)

text \<open>C8, witness: from the initial state, and from the state after one click.\<close>
theorem click_toggles_witness:
  "selectedElementId (initial_state :: unit scene_state) \<noteq> Some 5
   \<and> selectedElementId (onClick 5 (onClick 5 (initial_state :: unit scene_state))) = None
   \<and> selectedElementId (onClick 5 (initial_state :: unit scene_state)) = Some 5
   \<and> selectedElementId (onClick 5 (onClick 5 (onClick 5 (initial_state :: unit scene_state))))
       = Some 5"
proof -
  have a: "selectedElementId (initial_state :: unit scene_state) \<noteq> Some 5"
    by (simp add: initial_state_def)
  note t0 = click_toggles [of 5 "initial_state :: unit scene_state"]
  from t0 a have b: "selectedElementId (onClick 5 (initial_state :: unit scene_state)) = Some 5"
    by simp
  note t1 = click_toggles [of 5 "onClick 5 (initial_state :: unit scene_state)"]
  from t0 t1 a b show ?thesis
    by blast
qed

section \<open>Loading\<close>

lemma mappedElement_fields:
  "get_field (mappedElement el) ''cpk_hex'' = get_field el ''cpk-hex''"
  "key \<noteq> ''cpk_hex'' \<Longrightarrow> mappedElement el key = el key"
  by (simp_all add: mappedElement_def get_field_def)

lemma fetch_settled_elements:
  "fetch_settled (Response True status (Elements els)) st
     = (st\<lparr>elements := mappedElements els, loading := False\<rparr>, [])"
  by simp

text \<open>
  C6. After a request answered with an array of records, every record \<open>stored\<close> in the
  state has a field \<open>cpk_hex\<close> equal to the field \<open>cpk-hex\<close> of the fetched record at
  the same position, and every other field as it was fetched; the list has the same length.
\<close>
theorem load_normalizes_cpk_hex:
  assumes "i < length els"
    and "stored = elements (fst (fetch_settled (Response True status (Elements els)) st))"
  shows "length stored = length els
       \<and> get_field (stored ! i) ''cpk_hex'' = get_field (els ! i) ''cpk-hex''
       \<and> (\<forall>key. key \<noteq> ''cpk_hex'' \<longrightarrow> (stored ! i) key = (els ! i) key)"
  using assms by (simp add: mappedElements_def mappedElement_fields)

text \<open>C6, witness: a document with one record.\<close>
theorem load_normalizes_cpk_hex_witness:
  "(0 :: nat) < length [sample_object]
   \<and> get_field
        (elements (fst (fetch_settled (Response True 200 (Elements [sample_object]))
           initial_state)) ! 0) ''cpk_hex'' = JStr ''ffffff''
   \<and> ''name'' \<noteq> ''cpk_hex''
   \<and> (elements (fst (fetch_settled (Response True 200 (Elements [sample_object]))
           initial_state)) ! 0) ''name'' = Some (JStr ''Hydrogen'')"
proof -
  have h: "(0 :: nat) < length [sample_object]"
    by simp
  have k: "''name'' \<noteq> ''cpk_hex''"
    by simp
  have v: "get_field ([sample_object] ! 0) ''cpk-hex'' = JStr ''ffffff''"
    "([sample_object] ! 0) ''name'' = Some (JStr ''Hydrogen'')"
    by (simp_all add: sample_object_def get_field_def)
  from load_normalizes_cpk_hex [OF h refl, of 200 initial_state] k v h show ?thesis
    by metis
qed

section \<open>A failed request\<close>

lemma render_ignores_error: "render (st\<lparr>error := e\<rparr>) = render st"
  by (simp add: render_def)

text \<open>
  C2. A rejected request and a response that is not ok both set \<open>error\<close> to the message
  and \<open>loading\<close> to false and start no request. What is rendered then is the scene with
  no element, the same as after an empty document was loaded and the same for both
  failures: the message is in the state but not on the screen.
\<close>
theorem failed_fetch_not_rendered:
  "fetch_settled (Rejected ''Failed to fetch'') initial_state
     = (initial_state\<lparr>error := Some ''Failed to fetch'', loading := False\<rparr>, [])
   \<and> fetch_settled (Response False 404 (Malformed [])) initial_state
     = (initial_state\<lparr>error := Some ''HTTP error! status: 404'', loading := False\<rparr>, [])
   \<and> render (fst (fetch_settled (Rejected ''Failed to fetch'') initial_state))
     = Scene [] None None Category False False
   \<and> render (fst (fetch_settled (Rejected ''Failed to fetch'') initial_state))
     = render (fst (fetch_settled (Response True 200 (Elements [])) initial_state))
   \<and> render (fst (fetch_settled (Rejected ''Failed to fetch'') initial_state))
     = render (fst (fetch_settled (Response False 404 (Malformed [])) initial_state))"
proof -
  have "nat_string 404 = ''404''"
    by code_simp
  then show ?thesis
    by (simp add: fail_with_def render_def initial_state_def mappedElements_def)
qed

end
